theory Spec2Isabelle
  imports Main "HOL-Library.AList" "HOL-Library.Sublist"
begin

section \<open>Python values, exceptions and observable events\<close>

text \<open>
  The command-line front end \<^verbatim>\<open>choppy/choppy.py\<close> is Python 2 code working on JSON
  documents answered by the Cromwell server. A JSON document is a \<open>pyval\<close>; a dict is an
  association list with distinct keys, in iteration order.
\<close>

datatype pyval =
    PNone
  | PBool bool
  | PInt int
  | PStr string
  | PList "pyval list"
  | PDict "(string \<times> pyval) list"

text \<open>
  Exceptions. \<open>exc\<close> are the instances of Python's \<^verbatim>\<open>Exception\<close> (what
  \<^verbatim>\<open>except Exception\<close> catches); \<^verbatim>\<open>SystemExit\<close> and \<^verbatim>\<open>KeyboardInterrupt\<close> derive from
  \<^verbatim>\<open>BaseException\<close> only. \<open>KeyError k\<close> carries the missing key, \<open>TypeError m\<close> and
  \<open>Error m\<close> (any other subclass of \<^verbatim>\<open>Exception\<close>) carry their message.
\<close>

datatype exc = KeyError string | TypeError string | Error string

datatype exn = Exc exc | SystemExit int | KeyboardInterrupt

text \<open>\<^verbatim>\<open>str(e)\<close>: a \<^verbatim>\<open>KeyError\<close> prints the repr of its key, the others their message.\<close>

fun str_exc :: "exc \<Rightarrow> string" where
  "str_exc (KeyError k) = [CHR 0x27] @ k @ [CHR 0x27]"
| "str_exc (TypeError m) = m"
| "str_exc (Error m) = m"

text \<open>The object built by \<^verbatim>\<open>Monitor(host=, user=, no_notify=, verbose=, interval=)\<close>.\<close>

record monitor_obj =
  m_host :: string
  m_user :: string
  m_no_notify :: bool
  m_verbose :: bool
  m_interval :: "int option"

text \<open>The keyword arguments of \<^verbatim>\<open>cromwell.jstart_workflow\<close>, with the client's host.\<close>

record submit_req =
  req_host :: string
  req_wdl_file :: string
  req_json_file :: string
  req_dependencies :: "string option"
  req_disable_caching :: bool
  req_extra_options :: "(string \<times> string) list option"
  req_bucket :: string
  req_custom_labels :: "(string \<times> string) list"

text \<open>
  What a run does to the outside world, in order: output on standard output, log records,
  sleeps, and the calls to the modules that are not part of this file (Cromwell client,
  Monitor, Validator, \<^verbatim>\<open>print_log_exit\<close>, the clock).
\<close>

datatype event =
    Print string
  | PPrint pyval
  | PrintJson pyval
  | LogInfo string
  | LogDebug string
  | LogCritical string
  | Sleep nat
  | ValidateJson string string
  | Submit submit_req
  | QueryLabels string "(string \<times> string) list option"
  | QueryStatus string pyval
  | QueryMetadata string pyval
  | QueryLogs string pyval
  | ExplainFound string pyval bool
  | MonitorRun monitor_obj
  | MonitorWorkflow monitor_obj pyval
  | MonitorUserWorkflows monitor_obj
  | GetUserWorkflows monitor_obj string
  | StartDate pyval
  | PrintLogExit string bool

section \<open>Programs with effects and exceptions\<close>

text \<open>
  A program maps the events so far to an outcome (\<open>Inl\<close> an exception that left the
  function, \<open>Inr\<close> the returned value) and the events extended by its own.
\<close>

type_synonym 'a prog = "event list \<Rightarrow> (exn + 'a) \<times> event list"

definition ret :: "'a \<Rightarrow> 'a prog" where
  "ret x = (\<lambda>t. (Inr x, t))"

definition throw :: "exn \<Rightarrow> 'a prog" where
  "throw e = (\<lambda>t. (Inl e, t))"

definition bnd :: "'a prog \<Rightarrow> ('a \<Rightarrow> 'b prog) \<Rightarrow> 'b prog" where
  "bnd m f = (\<lambda>t. case m t of (Inl e, t') \<Rightarrow> (Inl e, t') | (Inr x, t') \<Rightarrow> f x t')"

definition andthen :: "unit prog \<Rightarrow> 'b prog \<Rightarrow> 'b prog" where
  "andthen m k = bnd m (\<lambda>_. k)"

definition emit :: "event \<Rightarrow> unit prog" where
  "emit ev = (\<lambda>t. (Inr (), t @ [ev]))"

text \<open>A pure computation that may raise.\<close>

definition lift :: "exn + 'a \<Rightarrow> 'a prog" where
  "lift r = (case r of Inl e \<Rightarrow> throw e | Inr x \<Rightarrow> ret x)"

text \<open>
  A call to an external module: the call is recorded, and its outcome is what the module
  answers after the events so far.
\<close>

definition ask :: "event \<Rightarrow> (event list \<Rightarrow> exn + 'a) \<Rightarrow> 'a prog" where
  "ask ev answer = (\<lambda>t. (answer t, t @ [ev]))"

section \<open>Built-in operations of Python\<close>

text \<open>
  \<^verbatim>\<open>template.format(a1, ..., an)\<close> for templates whose fields are all \<^verbatim>\<open>{}\<close>: each field
  is replaced by the text of the next argument. Every template of this file has as many
  fields as arguments; a field without an argument (Python raises \<^verbatim>\<open>IndexError\<close>) is not
  reached and is copied.
\<close>

fun format_str :: "string \<Rightarrow> string list \<Rightarrow> string" where
  "format_str [] as = []"
| "format_str [c] as = [c]"
| "format_str (c # d # rest) as =
     (if c = CHR ''{'' \<and> d = CHR ''}''
      then (case as of
              [] \<Rightarrow> c # d # format_str rest []
            | a # as' \<Rightarrow> a @ format_str rest as')
      else c # format_str (d # rest) as)"

text \<open>\<^verbatim>\<open>sep.join(xs)\<close>.\<close>

fun join_str :: "string \<Rightarrow> string list \<Rightarrow> string" where
  "join_str sep [] = []"
| "join_str sep [x] = x"
| "join_str sep (x # y # ys) = x @ sep @ join_str sep (y # ys)"

text \<open>\<^verbatim>\<open>d[k]\<close> for a string key: only a dict can be indexed by a string.\<close>

fun getitem :: "pyval \<Rightarrow> string \<Rightarrow> exn + pyval" where
  "getitem (PDict kvs) k =
     (case map_of kvs k of None \<Rightarrow> Inl (Exc (KeyError k)) | Some v \<Rightarrow> Inr v)"
| "getitem v k = Inl (Exc (TypeError ''indices must be integers''))"

text \<open>\<^verbatim>\<open>d[k] = v\<close> for a string key.\<close>

fun setitem :: "pyval \<Rightarrow> string \<Rightarrow> pyval \<Rightarrow> exn + pyval" where
  "setitem (PDict kvs) k v = Inr (PDict (AList.update k v kvs))"
| "setitem w k v = Inl (Exc (TypeError ''object does not support item assignment''))"

text \<open>\<^verbatim>\<open>len(v)\<close>.\<close>

fun py_len :: "pyval \<Rightarrow> exn + nat" where
  "py_len (PStr s) = Inr (length s)"
| "py_len (PList xs) = Inr (length xs)"
| "py_len (PDict kvs) = Inr (length kvs)"
| "py_len v = Inl (Exc (TypeError ''object has no len()''))"

text \<open>The elements a \<^verbatim>\<open>for\<close> loop over \<open>v\<close> visits.\<close>

fun py_iter :: "pyval \<Rightarrow> exn + pyval list" where
  "py_iter (PList xs) = Inr xs"
| "py_iter (PDict kvs) = Inr (map (\<lambda>kv. PStr (fst kv)) kvs)"
| "py_iter (PStr s) = Inr (map (\<lambda>c. PStr [c]) s)"
| "py_iter v = Inl (Exc (TypeError ''object is not iterable''))"

text \<open>The truth value of a value in a condition.\<close>

fun truthy :: "pyval \<Rightarrow> bool" where
  "truthy PNone = False"
| "truthy (PBool b) = b"
| "truthy (PInt i) = (i \<noteq> 0)"
| "truthy (PStr s) = (s \<noteq> [])"
| "truthy (PList xs) = (xs \<noteq> [])"
| "truthy (PDict kvs) = (kvs \<noteq> [])"

text \<open>\<^verbatim>\<open>a + b\<close> with a string on one side: the other side must be a string.\<close>

fun str_add :: "string \<Rightarrow> pyval \<Rightarrow> exn + string" where
  "str_add s (PStr u) = Inr (s @ u)"
| "str_add s v = Inl (Exc (TypeError ''cannot concatenate str and non-str objects''))"

fun add_str :: "pyval \<Rightarrow> string \<Rightarrow> exn + string" where
  "add_str (PStr u) s = Inr (u @ s)"
| "add_str v s = Inl (Exc (TypeError ''unsupported operand type(s) for +''))"

section \<open>Dashboard links\<close>

text \<open>
  \<^verbatim>\<open>get_cromwell_links(server, workflow_id, port)\<close>. The arguments are the texts that
  \<^verbatim>\<open>format\<close> inserts for them. The result is the dict with the keys \<^verbatim>\<open>metadata\<close> and
  \<^verbatim>\<open>timing\<close>.
\<close>

definition get_cromwell_links :: "string \<Rightarrow> string \<Rightarrow> string \<Rightarrow> (string \<times> string) list" where
  "get_cromwell_links server workflow_id port =
     [(''metadata'',
       format_str ''http://{}:{}/api/workflows/v1/{}/metadata'' [server, port, workflow_id]),
      (''timing'',
       format_str ''http://{}:{}/api/workflows/v1/{}/timing'' [server, port, workflow_id])]"

text \<open>\<^verbatim>\<open>links[k]\<close> on a dict of strings.\<close>

definition dict_get :: "(string \<times> 'v) list \<Rightarrow> string \<Rightarrow> exn + 'v" where
  "dict_get d k = (case map_of d k of None \<Rightarrow> Inl (Exc (KeyError k)) | Some v \<Rightarrow> Inr v)"

section \<open>Arguments and the modules outside this file\<close>

text \<open>
  The namespace that \<^verbatim>\<open>argparse\<close> hands to a subcommand, with the attributes the
  subcommands below read. \<^verbatim>\<open>--label\<close>, \<^verbatim>\<open>--extra_options\<close> and \<^verbatim>\<open>--filter\<close> use
  \<^verbatim>\<open>action='append'\<close>: \<open>None\<close> when the option is absent, the list of its values
  otherwise. \<open>workflow_id\<close> is \<open>PNone\<close>, the parser's default string \<^verbatim>\<open>"None"\<close>, what the
  user typed, or the id that \<^verbatim>\<open>call_run\<close> stores. \<open>all_users\<close> is \<^verbatim>\<open>args.all\<close>,
  \<open>filter_arg\<close> is \<^verbatim>\<open>args.filter\<close>.
\<close>

record args =
  validate :: bool
  label :: "string list option"
  username :: string
  server :: string
  wdl :: string
  json :: string
  dependencies :: "string option"
  disable_caching :: bool
  extra_options :: "string list option"
  bucket :: string
  workflow_id :: pyval
  monitor :: bool
  daemon :: bool
  no_notify :: bool
  verbose :: bool
  interval :: int
  status :: bool
  metadata :: bool
  logs :: bool
  all_users :: bool
  days :: pyval
  filter_arg :: "string list option"
  input :: bool

text \<open>
  The modules imported by \<^verbatim>\<open>choppy.py\<close> that are not part of it, as parameters:
  \<^verbatim>\<open>utils.kv_list_to_dict\<close>; the configuration \<^verbatim>\<open>c.cloud_server\<close>,
  \<^verbatim>\<open>c.gscid_cloud_server\<close>; the port of a \<^verbatim>\<open>Cromwell\<close> client for a host, as \<^verbatim>\<open>format\<close>
  prints it; Python's \<^verbatim>\<open>repr\<close> and the text of \<^verbatim>\<open>vars(args)\<close>; \<^verbatim>\<open>getpass.getuser()\<close>;
  the methods of \<^verbatim>\<open>Cromwell\<close>, \<^verbatim>\<open>Validator\<close> and \<^verbatim>\<open>Monitor\<close>; the start date that
  \<^verbatim>\<open>call_list\<close> computes from the clock and \<^verbatim>\<open>args.days\<close>; and
  \<^verbatim>\<open>single_bucket.print_log_exit\<close>. A method answers after the events so far, so it may
  answer differently from one call to the next. The constructors of \<^verbatim>\<open>Cromwell\<close>,
  \<^verbatim>\<open>Validator\<close> and \<^verbatim>\<open>Monitor\<close> only store their arguments.
\<close>

record env =
  kv_list_to_dict :: "string list option \<Rightarrow> exn + (string \<times> string) list option"
  cloud_server :: string
  gscid_cloud_server :: string
  cromwell_port :: "string \<Rightarrow> string"
  py_repr :: "pyval \<Rightarrow> string"
  show_args :: "args \<Rightarrow> string"
  process_user :: string
  jstart_workflow :: "submit_req \<Rightarrow> event list \<Rightarrow> exn + pyval"
  query_labels :: "string \<Rightarrow> (string \<times> string) list option \<Rightarrow> event list \<Rightarrow> exn + pyval"
  query_status :: "string \<Rightarrow> pyval \<Rightarrow> event list \<Rightarrow> exn + pyval"
  query_metadata :: "string \<Rightarrow> pyval \<Rightarrow> event list \<Rightarrow> exn + pyval"
  query_logs :: "string \<Rightarrow> pyval \<Rightarrow> event list \<Rightarrow> exn + pyval"
  explain_found :: "string \<Rightarrow> pyval \<Rightarrow> bool \<Rightarrow> event list \<Rightarrow> exn + (pyval \<times> pyval \<times> pyval)"
  validate_json :: "string \<Rightarrow> string \<Rightarrow> event list \<Rightarrow> exn + string list"
  monitor_run :: "monitor_obj \<Rightarrow> event list \<Rightarrow> exn + unit"
  monitor_workflow :: "monitor_obj \<Rightarrow> pyval \<Rightarrow> event list \<Rightarrow> exn + unit"
  monitor_user_workflows :: "monitor_obj \<Rightarrow> event list \<Rightarrow> exn + unit"
  get_user_workflows :: "monitor_obj \<Rightarrow> string \<Rightarrow> event list \<Rightarrow> exn + pyval"
  start_date :: "pyval \<Rightarrow> event list \<Rightarrow> exn + string"
  print_log_exit :: "string \<Rightarrow> bool \<Rightarrow> event list \<Rightarrow> exn + unit"

text \<open>\<^verbatim>\<open>str(v)\<close>, as \<^verbatim>\<open>print\<close> and \<^verbatim>\<open>format\<close> use it: a string is itself.\<close>

definition py_str :: "env \<Rightarrow> pyval \<Rightarrow> string" where
  "py_str env v = (case v of PStr s \<Rightarrow> s | _ \<Rightarrow> py_repr env v)"

text \<open>Sequencing of pure computations that may raise.\<close>

definition ebind :: "exn + 'a \<Rightarrow> ('a \<Rightarrow> exn + 'b) \<Rightarrow> exn + 'b" where
  "ebind r f = (case r of Inl e \<Rightarrow> Inl e | Inr x \<Rightarrow> f x)"

text \<open>\<^verbatim>\<open>try: m except KeyError as e: h\<close> and \<^verbatim>\<open>try: m except Exception as e: h\<close>.\<close>

definition catch_KeyError :: "'a prog \<Rightarrow> (string \<Rightarrow> 'a prog) \<Rightarrow> 'a prog" where
  "catch_KeyError m h =
     (\<lambda>t. case m t of
            (Inl (Exc (KeyError k)), t') \<Rightarrow> h k t'
          | (r, t') \<Rightarrow> (r, t'))"

definition catch_Exception :: "'a prog \<Rightarrow> (exc \<Rightarrow> 'a prog) \<Rightarrow> 'a prog" where
  "catch_Exception m h =
     (\<lambda>t. case m t of
            (Inl (Exc e), t') \<Rightarrow> h e t'
          | (r, t') \<Rightarrow> (r, t'))"

section \<open>The subcommands\<close>

subsection \<open>\<^verbatim>\<open>call_validate\<close>\<close>

definition call_validate :: "env \<Rightarrow> args \<Rightarrow> unit prog" where
  "call_validate env a =
     andthen (emit (LogInfo ''Validation requested.''))
    (bnd (ask (ValidateJson (wdl a) (json a)) (validate_json env (wdl a) (json a))) (\<lambda>result.
       if length result \<noteq> 0
       then (let e = format_str ''{} input file contains the following errors:'' [json a]
                       @ [CHR 0x0A] @ join_str [CHR 0x0A] result
             in andthen (emit (LogCritical e)) (throw (SystemExit 1)))
       else (let s = format_str ''No errors found in {}'' [wdl a]
             in andthen (emit (Print s)) (emit (LogInfo s)))))"

subsection \<open>\<^verbatim>\<open>call_monitor\<close>\<close>

text \<open>The body of the \<^verbatim>\<open>try\<close> statement of \<^verbatim>\<open>call_monitor\<close>.\<close>

definition monitor_body :: "env \<Rightarrow> args \<Rightarrow> unit prog" where
  "monitor_body env a =
     (if daemon a
      then (let m = \<lparr>m_host = server a, m_user = ''*'', m_no_notify = no_notify a,
                      m_verbose = verbose a, m_interval = Some (interval a)\<rparr>
            in ask (MonitorRun m) (monitor_run env m))
      else (let m = \<lparr>m_host = server a, m_user = username a, m_no_notify = no_notify a,
                      m_verbose = verbose a, m_interval = Some (interval a)\<rparr>
            in if truthy (workflow_id a)
               then ask (MonitorWorkflow m (workflow_id a))
                      (monitor_workflow env m (workflow_id a))
               else ask (MonitorUserWorkflows m) (monitor_user_workflows env m)))"

definition call_monitor :: "env \<Rightarrow> args \<Rightarrow> unit prog" where
  "call_monitor env a =
     andthen (emit (LogInfo ''Monitoring requested''))
    (andthen (emit (Print ''-------------Monitoring Workflow-------------''))
    (catch_Exception (monitor_body env a)
       (\<lambda>e. ask (PrintLogExit (str_exc e) False) (print_log_exit env (str_exc e) False))))"

subsection \<open>\<^verbatim>\<open>call_run\<close>\<close>

text \<open>
  The loop \<^verbatim>\<open>while retry != 0\<close> of \<^verbatim>\<open>call_run\<close>, entered with \<^verbatim>\<open>retry = 4\<close>: a pass either
  sets \<open>retry\<close> to 0 or decreases it by one, so \<open>retry\<close> is a natural number.
\<close>

fun monitor_retry :: "env \<Rightarrow> args \<Rightarrow> nat \<Rightarrow> unit prog" where
  "monitor_retry env a 0 = ret ()"
| "monitor_retry env a (Suc retry) =
     catch_KeyError
       (bnd (call_monitor env a) (\<lambda>_. monitor_retry env a 0))
       (\<lambda>k. andthen (emit (LogDebug (str_exc (KeyError k)))) (monitor_retry env a retry))"

text \<open>
  The statement \<^verbatim>\<open>if args.monitor:\<close> of \<^verbatim>\<open>call_run\<close>: the sleep, the message and the
  retry loop.
\<close>

definition handoff :: "env \<Rightarrow> args \<Rightarrow> unit prog" where
  "handoff env a =
     (if monitor a
      then andthen (emit (Sleep 5))
          (andthen (emit (Print
             ''These will also be e-mailed to you when the workflow completes.''))
          (monitor_retry env a 4))
      else ret ())"

text \<open>
  \<^verbatim>\<open>call_run\<close> after the submission: the links are printed and logged, the id is stored in
  \<^verbatim>\<open>args.workflow_id\<close>, and the workflow is monitored when \<^verbatim>\<open>--monitor\<close> was given.
\<close>

definition after_submission :: "env \<Rightarrow> args \<Rightarrow> pyval \<Rightarrow> (pyval \<times> args) prog" where
  "after_submission env a result =
     andthen (emit (Print ''-------------Cromwell Links-------------''))
    (bnd (lift (getitem result ''id'')) (\<lambda>wid.
     let links = get_cromwell_links (server a) (py_str env wid) (cromwell_port env (server a))
     in
     bnd (lift (dict_get links ''metadata'')) (\<lambda>l_metadata.
     andthen (emit (Print l_metadata))
    (bnd (lift (dict_get links ''timing'')) (\<lambda>l_timing.
     andthen (emit (Print l_timing))
    (andthen (emit (LogInfo (format_str ''Metadata:{}'' [l_metadata])))
    (andthen (emit (LogInfo (format_str ''Timing Graph:{}'' [l_timing])))
    (let a' = a\<lparr>workflow_id := wid\<rparr>
     in andthen (handoff env a') (ret (result, a'))))))))))"

text \<open>\<^verbatim>\<open>call_run\<close>: validation, labels, submission, and then the part above.\<close>

definition call_run :: "env \<Rightarrow> args \<Rightarrow> (pyval \<times> args) prog" where
  "call_run env a =
     bnd (if validate a then call_validate env a else ret ()) (\<lambda>_.
     bnd (lift (kv_list_to_dict env (label a))) (\<lambda>parsed.
     let labels_dict =
           AList.update ''username'' (username a) (case parsed of None \<Rightarrow> [] | Some d \<Rightarrow> d)
     in
     bnd (lift (kv_list_to_dict env (extra_options a))) (\<lambda>options.
     let req = \<lparr>req_host = server a, req_wdl_file = wdl a, req_json_file = json a,
                req_dependencies = dependencies a, req_disable_caching = disable_caching a,
                req_extra_options = options, req_bucket = bucket a,
                req_custom_labels = labels_dict\<rparr>
     in
     bnd (ask (Submit req) (jstart_workflow env req)) (after_submission env a))))"

subsection \<open>\<^verbatim>\<open>call_list\<close>\<close>

text \<open>\<^verbatim>\<open>x in xs\<close> for a list of strings \<open>xs\<close>.\<close>

definition in_strs :: "pyval \<Rightarrow> string list \<Rightarrow> bool" where
  "in_strs v xs = (case v of PStr s \<Rightarrow> s \<in> set xs | _ \<Rightarrow> False)"

text \<open>\<^verbatim>\<open>[res for res in result if res['status'] in args.filter]\<close>.\<close>

fun filter_jobs :: "string list \<Rightarrow> pyval list \<Rightarrow> exn + pyval list" where
  "filter_jobs flt [] = Inr []"
| "filter_jobs flt (res # rest) =
     ebind (getitem res ''status'') (\<lambda>st.
     ebind (filter_jobs flt rest) (\<lambda>kept.
     Inr (if in_strs st flt then res # kept else kept)))"

definition process_job :: "env \<Rightarrow> args \<Rightarrow> pyval \<Rightarrow> exn + pyval" where
  "process_job env a job =
     ebind (getitem job ''id'') (\<lambda>wid.
     let links = get_cromwell_links (server a) (py_str env wid) (cromwell_port env (server a))
     in
     ebind (dict_get links ''metadata'') (\<lambda>l_metadata.
     ebind (setitem job ''metadata'' (PStr l_metadata)) (\<lambda>job1.
     ebind (dict_get links ''timing'') (\<lambda>l_timing.
     setitem job1 ''timing'' (PStr l_timing)))))"

text \<open>\<^verbatim>\<open>map(lambda j: process_job(j), result)\<close>, a list in Python 2.\<close>

fun process_jobs :: "env \<Rightarrow> args \<Rightarrow> pyval list \<Rightarrow> exn + pyval list" where
  "process_jobs env a [] = Inr []"
| "process_jobs env a (job # rest) =
     ebind (process_job env a job) (\<lambda>j.
     ebind (process_jobs env a rest) (\<lambda>js. Inr (j # js)))"

definition call_list :: "env \<Rightarrow> args \<Rightarrow> (pyval \<times> args) prog" where
  "call_list env a =
     (let user = (if all_users a then ''*'' else username a);
          m = \<lparr>m_host = server a, m_user = user, m_no_notify = True, m_verbose = True,
               m_interval = None\<rparr>
      in
      bnd (ask (StartDate (days a)) (start_date env (days a))) (\<lambda>start_date_str.
      bnd (ask (GetUserWorkflows m start_date_str) (get_user_workflows env m start_date_str))
        (\<lambda>q.
      catch_KeyError
        (bnd (lift (getitem q ''results'')) (\<lambda>result0.
         bnd (lift (case filter_arg a of
                      Some (f # fs) \<Rightarrow>
                        ebind (py_iter result0) (\<lambda>rs.
                        ebind (filter_jobs (f # fs) rs) (\<lambda>kept. Inr (PList kept)))
                    | _ \<Rightarrow> Inr result0)) (\<lambda>result1.
         bnd (lift (ebind (py_iter result1) (process_jobs env a))) (\<lambda>jobs.
         andthen (emit (PPrint (PList jobs)))
           (ret (PList jobs, a\<lparr>monitor := True\<rparr>))))))
        (\<lambda>k. andthen
                (emit (LogCritical
                   (format_str ''KeyError: Unable to find key {}'' [str_exc (KeyError k)])))
                (ret (PNone, a))))))"

subsection \<open>\<^verbatim>\<open>call_query\<close>\<close>

text \<open>
  The first condition is \<^verbatim>\<open>args.workflow_id == None or args.workflow_id == "None" and not
  args.label\<close>, where \<^verbatim>\<open>and\<close> binds tighter than \<^verbatim>\<open>or\<close>. A label list is true when it is
  a non-empty list.
\<close>

definition label_given :: "string list option \<Rightarrow> bool" where
  "label_given l = (case l of Some (x # xs) \<Rightarrow> True | _ \<Rightarrow> False)"

definition call_query :: "env \<Rightarrow> args \<Rightarrow> (pyval \<times> args) prog" where
  "call_query env a =
     (if workflow_id a = PNone \<or> (workflow_id a = PStr ''None'' \<and> \<not> label_given (label a))
      then call_list env a
      else if label_given (label a)
      then andthen (emit (LogInfo ''Label query requested.''))
          (bnd (lift (kv_list_to_dict env (label a))) (\<lambda>labels.
           bnd (ask (QueryLabels (server a) labels) (query_labels env (server a) labels))
             (\<lambda>labeled. ret (labeled, a))))
      else
        bnd (if status a
             then andthen (emit (LogInfo ''Status requested.''))
                 (bnd (ask (QueryStatus (server a) (workflow_id a))
                         (query_status env (server a) (workflow_id a)))
                    (\<lambda>r. ret [r]))
             else ret []) (\<lambda>responses1.
        bnd (if metadata a
             then andthen (emit (LogInfo ''Metadata requested.''))
                 (bnd (ask (QueryMetadata (server a) (workflow_id a))
                         (query_metadata env (server a) (workflow_id a)))
                    (\<lambda>r. ret (responses1 @ [r])))
             else ret responses1) (\<lambda>responses2.
        bnd (if logs a
             then andthen (emit (LogInfo ''Logs requested.''))
                 (bnd (ask (QueryLogs (server a) (workflow_id a))
                         (query_logs env (server a) (workflow_id a)))
                    (\<lambda>r. ret (responses2 @ [r])))
             else ret responses2) (\<lambda>responses.
        andthen (emit (LogDebug (''Query Results:'' @ [CHR 0x0A] @ py_repr env (PList responses))))
          (ret (PList responses, a))))))"

subsection \<open>\<^verbatim>\<open>call_explain\<close>\<close>

text \<open>
  Modelled from the spec: \<^verbatim>\<open>Cromwell.explain_workflow\<close> (module \<^verbatim>\<open>choppy/cromwell.py\<close>) is
  not among the sources. The specification says of it: it calls \<^verbatim>\<open>queryStatus\<close>; if the
  handle does not resolve, it returns \<^verbatim>\<open>(none, {}, {})\<close>. A handle that does not resolve is
  one for which the status query answers \<^verbatim>\<open>None\<close>. What it assembles for a handle that
  resolves is the parameter \<open>explain_found\<close>.
\<close>

definition explain_workflow ::
  "env \<Rightarrow> string \<Rightarrow> pyval \<Rightarrow> bool \<Rightarrow> (pyval \<times> pyval \<times> pyval) prog" where
  "explain_workflow env host wid include_inputs =
     bnd (ask (QueryStatus host wid) (query_status env host wid)) (\<lambda>st.
       if st = PNone
       then ret (PNone, PDict [], PDict [])
       else ask (ExplainFound host wid include_inputs)
              (explain_found env host wid include_inputs))"

text \<open>
  The four lines printed for one stream (\<^verbatim>\<open>"stdout"\<close> or \<^verbatim>\<open>"stderr"\<close>) of a failed job:
  the header, \<^verbatim>\<open>"Shard: " + log[stream]["label"]\<close>, \<^verbatim>\<open>log[stream]["name"] + ":"\<close> and
  \<^verbatim>\<open>log[stream]["log"]\<close>.
\<close>

definition print_stream :: "env \<Rightarrow> string \<Rightarrow> string \<Rightarrow> pyval \<Rightarrow> unit prog" where
  "print_stream env header stream log =
     andthen (emit (Print header))
    (bnd (lift (ebind (getitem log stream) (\<lambda>s.
                ebind (getitem s ''label'') (str_add ''Shard: '')))) (\<lambda>line1.
     andthen (emit (Print line1))
    (bnd (lift (ebind (getitem log stream) (\<lambda>s.
                ebind (getitem s ''name'') (\<lambda>n. add_str n '':'')))) (\<lambda>line2.
     andthen (emit (Print line2))
    (bnd (lift (ebind (getitem log stream) (\<lambda>s. getitem s ''log''))) (\<lambda>l.
     emit (Print (py_str env l))))))))"

text \<open>The loop \<^verbatim>\<open>for log in stdout_res["failed_jobs"]\<close>.\<close>

fun print_failed_jobs :: "env \<Rightarrow> pyval list \<Rightarrow> unit prog" where
  "print_failed_jobs env [] = ret ()"
| "print_failed_jobs env (log # rest) =
     andthen (print_stream env ''-------------Failed Stdout-------------'' ''stdout'' log)
    (andthen (print_stream env ''-------------Failed Stderr-------------'' ''stderr'' log)
    (print_failed_jobs env rest))"

definition call_explain :: "env \<Rightarrow> args \<Rightarrow> (pyval \<times> args) prog" where
  "call_explain env a =
     andthen (emit (LogInfo ''Explain requested''))
    (bnd (explain_workflow env (server a) (workflow_id a) (input a))
       (\<lambda>(result, additional_res, stdout_res).
     andthen
       (if result \<noteq> PNone
        then andthen (emit (Print ''-------------Workflow Status-------------''))
            (andthen (emit (PPrint result))
            (bnd (lift (py_len additional_res)) (\<lambda>n_additional.
             andthen
               (if n_additional > 0
                then andthen
                       (emit (Print ''-------------Additional Parameters-------------''))
                       (emit (PPrint additional_res))
                else ret ())
            (bnd (lift (py_len stdout_res)) (\<lambda>n_stdout.
             andthen
               (if n_stdout > 0
                then bnd (lift (ebind (getitem stdout_res ''failed_jobs'') py_iter))
                       (print_failed_jobs env)
                else ret ())
            (andthen (emit (Print ''-------------Cromwell Links-------------''))
            (bnd (lift (getitem result ''id'')) (\<lambda>wid.
             let links = get_cromwell_links (server a) (py_str env wid)
                           (cromwell_port env (server a))
             in
             bnd (lift (dict_get links ''metadata'')) (\<lambda>l_metadata.
             andthen (emit (Print l_metadata))
            (bnd (lift (dict_get links ''timing'')) (\<lambda>l_timing.
             emit (Print l_timing))))))))))))
        else emit (Print ''Workflow not found.''))
       (ret (PNone, a\<lparr>monitor := True\<rparr>))))"

subsection \<open>\<^verbatim>\<open>main\<close>\<close>

text \<open>
  \<^verbatim>\<open>main\<close> after \<^verbatim>\<open>parser.parse_args()\<close>, for the subcommand \<open>func\<close> that the parser
  selected; \<open>server_rewrite\<close> is its replacement of the server names \<^verbatim>\<open>cloud\<close> and
  \<^verbatim>\<open>gscid-cloud\<close>. The namespaces of \<^verbatim>\<open>run\<close>, \<^verbatim>\<open>query\<close> and \<^verbatim>\<open>explain\<close> all have the attributes
  \<^verbatim>\<open>server\<close> and \<^verbatim>\<open>monitor\<close>, so the two handlers of \<^verbatim>\<open>AttributeError\<close> are not entered.
\<close>

definition server_rewrite :: "env \<Rightarrow> args \<Rightarrow> args" where
  "server_rewrite env a =
     (let a1 = (if server a = ''cloud'' then a\<lparr>server := cloud_server env\<rparr> else a)
      in if server a1 = ''gscid-cloud'' then a1\<lparr>server := gscid_cloud_server env\<rparr> else a1)"

definition main :: "env \<Rightarrow> (env \<Rightarrow> args \<Rightarrow> (pyval \<times> args) prog) \<Rightarrow> args \<Rightarrow> unit prog" where
  "main env func a =
     (let user = process_user env;
          a2 = server_rewrite env a
      in
      andthen (emit (LogInfo (format_str
         ([CHR 0x0A] @ ''-------------New Choppy Execution by {}-------------'') [user])))
     (andthen (emit (LogInfo (format_str ''Parameters chosen: {}'' [show_args env a2])))
     (bnd (func env a2) (\<lambda>(result, a3).
      andthen (emit (LogInfo (format_str ''Result: {}'' [py_str env result])))
     (andthen (if \<not> monitor a3 then emit (PrintJson result) else ret ())
     (emit (LogInfo (format_str
         ([CHR 0x0A] @ ''-------------End Choppy Execution by {}-------------'') [user]))))))))"

text \<open>
  The exit status of the process, \<^verbatim>\<open>sys.exit(main())\<close>: 0 when \<^verbatim>\<open>main\<close> returns, the
  argument of \<^verbatim>\<open>sys.exit\<close> when \<^verbatim>\<open>SystemExit\<close> leaves it, 1 for any other exception.
\<close>

fun exit_code :: "exn + unit \<Rightarrow> int" where
  "exit_code (Inr u) = 0"
| "exit_code (Inl (SystemExit n)) = n"
| "exit_code (Inl e) = 1"

section \<open>Reading the events of a run\<close>

fun is_submit :: "event \<Rightarrow> bool" where
  "is_submit (Submit r) = True"
| "is_submit e = False"

fun is_sleep :: "event \<Rightarrow> bool" where
  "is_sleep (Sleep n) = True"
| "is_sleep e = False"

fun is_monitor_call :: "event \<Rightarrow> bool" where
  "is_monitor_call (MonitorRun m) = True"
| "is_monitor_call (MonitorWorkflow m w) = True"
| "is_monitor_call (MonitorUserWorkflows m) = True"
| "is_monitor_call e = False"

fun is_print_json :: "event \<Rightarrow> bool" where
  "is_print_json (PrintJson v) = True"
| "is_print_json e = False"

fun is_workflow_query :: "event \<Rightarrow> bool" where
  "is_workflow_query (QueryStatus h w) = True"
| "is_workflow_query (QueryMetadata h w) = True"
| "is_workflow_query (QueryLogs h w) = True"
| "is_workflow_query e = False"

fun is_print :: "event \<Rightarrow> bool" where
  "is_print (Print s) = True"
| "is_print (PPrint v) = True"
| "is_print (PrintJson v) = True"
| "is_print e = False"

text \<open>The events a program adds to the events so far.\<close>

definition emitted :: "'a prog \<Rightarrow> event list \<Rightarrow> event list" where
  "emitted m t = drop (length t) (snd (m t))"

text \<open>A program only adds events, and every event it adds satisfies \<open>P\<close>.\<close>

definition only :: "(event \<Rightarrow> bool) \<Rightarrow> 'a prog \<Rightarrow> bool" where
  "only P m = (\<forall>t. \<exists>out. snd (m t) = t @ out \<and> list_all P out)"

text \<open>Events that are neither a submission, a sleep, a monitor call nor the JSON dump.\<close>

definition quiet :: "event \<Rightarrow> bool" where
  "quiet e = (\<not> is_submit e \<and> \<not> is_sleep e \<and> \<not> is_monitor_call e \<and> \<not> is_print_json e)"

text \<open>The events that order a submission, the grace sleep and the monitor calls.\<close>

definition is_milestone :: "event \<Rightarrow> bool" where
  "is_milestone e = (is_submit e \<or> is_sleep e \<or> is_monitor_call e)"

section \<open>A concrete installation\<close>

text \<open>
  Modelled from the spec: \<^verbatim>\<open>kv_list_to_dict\<close> (module \<^verbatim>\<open>choppy/utils.py\<close>) is not among
  the sources. The specification says of it: it converts \<^verbatim>\<open>key:value\<close> strings into a
  mapping, and fails, naming the offending token, when a token lacks exactly one \<^verbatim>\<open>:\<close>
  separator. \<^verbatim>\<open>call_run\<close> compares its result with \<^verbatim>\<open>None\<close>, which is the result here when
  the option was not given. It serves as the parser of the example installation only.
\<close>

definition split_label :: "string \<Rightarrow> exn + (string \<times> string)" where
  "split_label tok =
     (if count_list tok CHR '':'' = 1
      then Inr (takeWhile (\<lambda>c. c \<noteq> CHR '':'') tok, tl (dropWhile (\<lambda>c. c \<noteq> CHR '':'') tok))
      else Inl (Exc (Error tok)))"

fun parse_labels :: "(string \<times> string) list \<Rightarrow> string list \<Rightarrow> exn + (string \<times> string) list" where
  "parse_labels d [] = Inr d"
| "parse_labels d (tok # rest) =
     ebind (split_label tok) (\<lambda>kv. parse_labels (AList.update (fst kv) (snd kv) d) rest)"

definition kv_list_to_dict_spec :: "string list option \<Rightarrow> exn + (string \<times> string) list option" where
  "kv_list_to_dict_spec l =
     (case l of
        None \<Rightarrow> Inr None
      | Some toks \<Rightarrow> ebind (parse_labels [] toks) (\<lambda>d. Inr (Some d)))"

text \<open>
  An installation in which every call succeeds: the server accepts the workflow and answers
  the id \<^verbatim>\<open>wf-1\<close>, the validator finds no error, the monitor returns, and
  \<^verbatim>\<open>print_log_exit\<close> exits only when asked to.
\<close>

definition demo_env :: env where
  "demo_env =
     \<lparr>kv_list_to_dict = kv_list_to_dict_spec,
      cloud_server = ''cloud.example.org'',
      gscid_cloud_server = ''gscid.example.org'',
      cromwell_port = (\<lambda>h. ''8000''),
      py_repr = (\<lambda>v. ''<value>''),
      show_args = (\<lambda>a. ''<args>''),
      process_user = ''alice'',
      jstart_workflow = (\<lambda>r t. Inr (PDict [(''id'', PStr ''wf-1''), (''status'', PStr ''Submitted'')])),
      query_labels = (\<lambda>h l t. Inr (PDict [(''results'', PList [])])),
      query_status = (\<lambda>h w t. Inr (PDict [(''id'', w), (''status'', PStr ''Running'')])),
      query_metadata = (\<lambda>h w t. Inr (PDict [(''id'', w)])),
      query_logs = (\<lambda>h w t. Inr (PDict [(''id'', w)])),
      explain_found = (\<lambda>h w i t. Inr (PDict [(''id'', w), (''status'', PStr ''Running'')],
                                      PDict [], PDict [])),
      validate_json = (\<lambda>w j t. Inr []),
      monitor_run = (\<lambda>m t. Inr ()),
      monitor_workflow = (\<lambda>m w t. Inr ()),
      monitor_user_workflows = (\<lambda>m t. Inr ()),
      get_user_workflows = (\<lambda>m s t. Inr (PDict [(''results'', PList [])])),
      start_date = (\<lambda>d t. Inr ''2018-01-01T00:00:00-05:00''),
      print_log_exit = (\<lambda>msg sys_exit t. if sys_exit then Inl (SystemExit 1) else Inr ())\<rparr>"

text \<open>\<^verbatim>\<open>choppy run wf.wdl in.json -S localhost -l project:demo -l username:mallory\<close>, by alice.\<close>

definition demo_args :: args where
  "demo_args =
     \<lparr>validate = False, label = Some [''project:demo'', ''username:mallory''],
      username = ''alice'', server = ''localhost'', wdl = ''wf.wdl'', json = ''in.json'',
      dependencies = None, disable_caching = False, extra_options = None,
      bucket = ''bucket'', workflow_id = PNone, monitor = False, daemon = False,
      no_notify = False, verbose = False, interval = 30, status = False, metadata = False,
      logs = False, all_users = False, days = PInt 7, filter_arg = None, input = False\<rparr>"

text \<open>What this run submits, and what the server answers.\<close>

definition demo_req :: submit_req where
  "demo_req = \<lparr>req_host = ''localhost'', req_wdl_file = ''wf.wdl'',
       req_json_file = ''in.json'', req_dependencies = None,
       req_disable_caching = False, req_extra_options = None,
       req_bucket = ''bucket'',
       req_custom_labels = [(''project'', ''demo''), (''username'', ''alice'')]\<rparr>"

definition demo_result :: pyval where
  "demo_result = PDict [(''id'', PStr ''wf-1''), (''status'', PStr ''Submitted'')]"

definition demo_links :: "event list" where
  "demo_links =
     [Print ''-------------Cromwell Links-------------'',
      Print ''http://localhost:8000/api/workflows/v1/wf-1/metadata'',
      Print ''http://localhost:8000/api/workflows/v1/wf-1/timing'',
      LogInfo ''Metadata:http://localhost:8000/api/workflows/v1/wf-1/metadata'',
      LogInfo ''Timing Graph:http://localhost:8000/api/workflows/v1/wf-1/timing'']"

text \<open>The monitor that \<^verbatim>\<open>call_monitor\<close> builds for alice's run.\<close>

definition demo_monitor :: monitor_obj where
  "demo_monitor = \<lparr>m_host = ''localhost'', m_user = ''alice'', m_no_notify = False,
       m_verbose = False, m_interval = Some 30\<rparr>"

text \<open>
  Alice runs the same command line with the hidden option \<^verbatim>\<open>-u mallory\<close> and no labels,
  and what this run submits.
\<close>

definition spoof_args :: args where
  "spoof_args = demo_args\<lparr>username := ''mallory'', label := None\<rparr>"

definition spoof_req :: submit_req where
  "spoof_req = \<lparr>req_host = ''localhost'', req_wdl_file = ''wf.wdl'',
       req_json_file = ''in.json'', req_dependencies = None,
       req_disable_caching = False, req_extra_options = None,
       req_bucket = ''bucket'',
       req_custom_labels = [(''username'', ''mallory'')]\<rparr>"

text \<open>The same command line with \<^verbatim>\<open>--validate\<close>, and with \<^verbatim>\<open>--monitor\<close>.\<close>

definition validated_args :: args where
  "validated_args = demo_args\<lparr>validate := True\<rparr>"

definition monitored_args :: args where
  "monitored_args = demo_args\<lparr>monitor := True\<rparr>"

text \<open>The monitor finds no status in the server's answer, each time it is asked.\<close>

definition keyerror_env :: env where
  "keyerror_env = demo_env\<lparr>monitor_workflow := (\<lambda>m w t. Inl (Exc (KeyError ''status'')))\<rparr>"

text \<open>The monitor cannot reach the server.\<close>

definition unreachable_env :: env where
  "unreachable_env =
     demo_env\<lparr>monitor_workflow := (\<lambda>m w t. Inl (Exc (Error ''connection refused'')))\<rparr>"

text \<open>The user interrupts the monitor.\<close>

definition interrupted_env :: env where
  "interrupted_env = demo_env\<lparr>monitor_workflow := (\<lambda>m w t. Inl KeyboardInterrupt)\<rparr>"

text \<open>The arguments that \<^verbatim>\<open>call_run\<close> hands to \<^verbatim>\<open>call_monitor\<close> in the monitored run.\<close>

definition handed_args :: args where
  "handed_args = monitored_args\<lparr>workflow_id := PStr ''wf-1''\<rparr>"

text \<open>
  \<^verbatim>\<open>choppy monitor -S localhost -u '*'\<close> with and without a workflow id, and the monitor
  that \<^verbatim>\<open>call_monitor\<close> builds for them, in daemon mode too.
\<close>

definition star_args :: args where
  "star_args = demo_args\<lparr>username := ''*'', monitor := True\<rparr>"

definition star_monitor :: monitor_obj where
  "star_monitor = \<lparr>m_host = ''localhost'', m_user = ''*'', m_no_notify = False,
       m_verbose = False, m_interval = Some 30\<rparr>"

text \<open>
  \<^verbatim>\<open>choppy explain wf-9 -S localhost\<close>; \<^verbatim>\<open>choppy query -S localhost -L project:demo -s\<close>,
  a label query with the status flag; and \<^verbatim>\<open>choppy query -S localhost\<close>.
\<close>

definition explain_args :: args where
  "explain_args = demo_args\<lparr>workflow_id := PStr ''wf-9'', label := None\<rparr>"

definition label_query_args :: args where
  "label_query_args =
     demo_args\<lparr>workflow_id := PStr ''None'', label := Some [''project:demo''], status := True\<rparr>"

definition list_query_args :: args where
  "list_query_args = demo_args\<lparr>workflow_id := PStr ''None'', label := None\<rparr>"

text \<open>The validator reports two errors.\<close>

definition invalid_env :: env where
  "invalid_env =
     demo_env\<lparr>validate_json := (\<lambda>w j t. Inr [''Missing input x'', ''Bad type for y''])\<rparr>"

text \<open>The server does not know the workflow.\<close>

definition unknown_env :: env where
  "unknown_env = demo_env\<lparr>query_status := (\<lambda>h w t. Inr PNone)\<rparr>"

section \<open>Laws of the program combinators\<close>

lemma bnd_ret [simp]: "bnd (ret x) f = f x" by (simp add: bnd_def ret_def)
lemma bnd_throw [simp]: "bnd (throw e) f = throw e" by (simp add: bnd_def throw_def)
lemma lift_Inr [simp]: "lift (Inr x) = ret x" by (simp add: lift_def)
lemma lift_Inl [simp]: "lift (Inl e) = throw e" by (simp add: lift_def)
lemma andthen_emit [simp]: "andthen (emit ev) k t = k (t @ [ev])" by (simp add: andthen_def bnd_def emit_def)
lemma andthen_ret [simp]: "andthen (ret u) k = k" by (simp add: andthen_def)
lemma bnd_ask: "bnd (ask ev ans) f t = (case ans t of Inl e \<Rightarrow> (Inl e, t @ [ev]) | Inr x \<Rightarrow> f x (t @ [ev]))"
  by (simp add: bnd_def ask_def split: sum.splits)
lemma ret_apply [simp]: "ret x t = (Inr x, t)" by (simp add: ret_def)
lemma throw_apply [simp]: "throw e t = (Inl e, t)" by (simp add: throw_def)
lemma emit_apply [simp]: "emit ev t = (Inr (), t @ [ev])" by (simp add: emit_def)
lemma ask_apply [simp]: "ask ev ans t = (ans t, t @ [ev])" by (simp add: ask_def)

text \<open>What a composed program emits.\<close>

lemma only_ret: "only P (ret x)" by (simp add: only_def)
lemma only_throw: "only P (throw e)" by (simp add: only_def)
lemma only_emit: "P ev \<Longrightarrow> only P (emit ev)" by (simp add: only_def)
lemma only_ask: "P ev \<Longrightarrow> only P (ask ev ans)" by (simp add: only_def)
lemma only_lift: "only P (lift r)" by (cases r) (simp_all add: only_def)

lemma only_bnd:
  assumes m: "only P m" and f: "\<And>x. only P (f x)"
  shows "only P (bnd m f)"
  unfolding only_def
proof
  fix t
  from m obtain o1 where o1: "snd (m t) = t @ o1" "list_all P o1" unfolding only_def by blast
  show "\<exists>out. snd (bnd m f t) = t @ out \<and> list_all P out"
  proof (cases "fst (m t)")
    case (Inl e)
    then have "bnd m f t = (Inl e, t @ o1)" using o1(1) by (cases "m t") (simp add: bnd_def)
    then show ?thesis using o1(2) by simp
  next
    case (Inr x)
    then have b: "bnd m f t = f x (t @ o1)" using o1(1) by (cases "m t") (simp add: bnd_def)
    from f[of x] obtain o2 where "snd (f x (t @ o1)) = (t @ o1) @ o2" "list_all P o2"
      unfolding only_def by blast
    then show ?thesis using b o1(2) by simp
  qed
qed

lemma only_bnd_lift:
  assumes "\<And>x. r = Inr x \<Longrightarrow> only P (f x)"
  shows "only P (bnd (lift r) f)"
  using assms by (cases r) (simp_all add: only_throw)

lemma only_andthen: "only P m \<Longrightarrow> only P k \<Longrightarrow> only P (andthen m k)"
  by (simp add: andthen_def only_bnd)

lemma only_catch_KeyError:
  assumes m: "only P m" and h: "\<And>k. only P (h k)"
  shows "only P (catch_KeyError m h)"
  unfolding only_def
proof
  fix t
  from m obtain o1 where o1: "snd (m t) = t @ o1" "list_all P o1" unfolding only_def by blast
  show "\<exists>out. snd (catch_KeyError m h t) = t @ out \<and> list_all P out"
  proof (cases "\<exists>k. fst (m t) = Inl (Exc (KeyError k))")
    case True
    then obtain k where k: "fst (m t) = Inl (Exc (KeyError k))" by blast
    then have b: "catch_KeyError m h t = h k (t @ o1)"
      using o1(1) by (cases "m t") (simp add: catch_KeyError_def)
    from h[of k] obtain o2 where "snd (h k (t @ o1)) = (t @ o1) @ o2" "list_all P o2"
      unfolding only_def by blast
    then show ?thesis using b o1(2) by simp
  next
    case False
    then have "catch_KeyError m h t = m t"
      by (cases "m t") (auto simp: catch_KeyError_def split: sum.splits exn.splits exc.splits)
    then show ?thesis using o1 by simp
  qed
qed

lemma only_catch_Exception:
  assumes m: "only P m" and h: "\<And>e. only P (h e)"
  shows "only P (catch_Exception m h)"
  unfolding only_def
proof
  fix t
  from m obtain o1 where o1: "snd (m t) = t @ o1" "list_all P o1" unfolding only_def by blast
  show "\<exists>out. snd (catch_Exception m h t) = t @ out \<and> list_all P out"
  proof (cases "\<exists>e. fst (m t) = Inl (Exc e)")
    case True
    then obtain e where k: "fst (m t) = Inl (Exc e)" by blast
    then have b: "catch_Exception m h t = h e (t @ o1)"
      using o1(1) by (cases "m t") (simp add: catch_Exception_def)
    from h[of e] obtain o2 where "snd (h e (t @ o1)) = (t @ o1) @ o2" "list_all P o2"
      unfolding only_def by blast
    then show ?thesis using b o1(2) by simp
  next
    case False
    then have "catch_Exception m h t = m t"
      by (cases "m t") (auto simp: catch_Exception_def split: sum.splits exn.splits)
    then show ?thesis using o1 by simp
  qed
qed

lemma only_mono: "only P m \<Longrightarrow> (\<And>e. P e \<Longrightarrow> Q e) \<Longrightarrow> only Q m"
  unfolding only_def list_all_iff by blast

lemma only_snd: "only P m \<Longrightarrow> snd (m t) = t @ emitted m t"
  unfolding only_def emitted_def by (metis append_eq_conv_conj)

lemma only_emitted: "only P m \<Longrightarrow> list_all P (emitted m t)"
  unfolding only_def emitted_def by (metis append_eq_conv_conj)

lemmas only_intros = only_ret only_throw only_emit only_ask only_lift only_bnd only_andthen
  only_catch_KeyError only_catch_Exception

text \<open>The events of validation and of the monitoring hand-off.\<close>

lemma only_call_validate: "(\<And>e. \<not> is_submit e \<Longrightarrow> \<not> is_sleep e \<Longrightarrow> \<not> is_monitor_call e \<Longrightarrow> \<not> is_print_json e \<Longrightarrow> P e) \<Longrightarrow> only P (call_validate env a)"
  unfolding call_validate_def Let_def
  by (intro only_intros allI impI) (auto intro!: only_intros)

lemma only_call_monitor: "(\<And>e. \<not> is_submit e \<Longrightarrow> \<not> is_sleep e  \<Longrightarrow> \<not> is_print_json e \<Longrightarrow> P e) \<Longrightarrow> only P (call_monitor env a)"
  unfolding call_monitor_def monitor_body_def Let_def
  by (auto intro!: only_intros)

lemma only_monitor_retry: "(\<And>e. \<not> is_submit e \<Longrightarrow> \<not> is_sleep e  \<Longrightarrow> \<not> is_print_json e \<Longrightarrow> P e) \<Longrightarrow> only P (monitor_retry env a n)"
  by (induction n) (auto intro!: only_intros only_call_monitor)

section \<open>Validation and the two ways of a run\<close>

lemma sublist_join_str: "x \<in> set xs \<Longrightarrow> sublist x (join_str sep xs)"
proof (induction sep xs rule: join_str.induct)
  case (1 sep) then show ?case by simp
next
  case (2 sep y) then show ?case by simp
next
  case (3 sep y z zs)
  show ?case
  proof (cases "x = y")
    case True
    then show ?thesis by simp
  next
    case False
    with 3 have "sublist x (join_str sep (z # zs))" by simp
    then obtain ps ss where "join_str sep (z # zs) = ps @ x @ ss"
      unfolding sublist_def by blast
    then have "join_str sep (y # z # zs) = (y @ sep @ ps) @ x @ ss" by simp
    then show ?thesis using sublist_appendI by metis
  qed
qed

lemma call_validate_errors:
  assumes "validate_json env (wdl a) (json a) (t @ [LogInfo ''Validation requested.'']) = Inr errs"
    and "errs \<noteq> []"
  shows "call_validate env a t =
     (Inl (SystemExit 1),
      t @ [LogInfo ''Validation requested.'', ValidateJson (wdl a) (json a),
           LogCritical (json a @ '' input file contains the following errors:'' @ [CHR 0x0A]
                        @ join_str [CHR 0x0A] errs)])"
  using assms by (simp add: call_validate_def bnd_ask Let_def)

lemma call_validate_ok:
  assumes "validate_json env (wdl a) (json a) (t @ [LogInfo ''Validation requested.'']) = Inr []"
  shows "call_validate env a t =
     (Inr (),
      t @ [LogInfo ''Validation requested.'', ValidateJson (wdl a) (json a),
           Print (''No errors found in '' @ wdl a), LogInfo (''No errors found in '' @ wdl a)])"
  using assms by (simp add: call_validate_def bnd_ask Let_def)

lemma only_prefix: "only P m \<Longrightarrow> prefix t (snd (m t))"
  unfolding only_def by (metis prefixI)

lemma only_handoff:
  "(\<And>e. \<not> is_submit e \<Longrightarrow> \<not> is_print_json e \<Longrightarrow> P e) \<Longrightarrow> only P (handoff env a)"
  unfolding handoff_def by (auto intro!: only_intros only_monitor_retry)

lemma only_after_submission:
  "(\<And>e. \<not> is_submit e \<Longrightarrow> \<not> is_print_json e \<Longrightarrow> P e) \<Longrightarrow> only P (after_submission env a result)"
  unfolding after_submission_def Let_def
  by (auto intro!: only_intros only_handoff)

lemma only_after_submission_quiet:
  "\<not> monitor a \<Longrightarrow> only quiet (after_submission env a result)"
  unfolding after_submission_def handoff_def Let_def
  by (auto intro!: only_intros simp: quiet_def)

lemma prefix_after_ask:
  assumes "\<And>x. only P (f x)"
  shows "prefix (t @ [ev]) (snd (bnd (ask ev ans) f t))"
  by (cases "ans t") (simp_all add: bnd_ask only_prefix[OF assms])

lemma only_submit_then:
  assumes "\<And>x. only P (f x)"
  shows "\<exists>out. snd (bnd (ask ev ans) f t) = t @ ev # out \<and> list_all P out"
proof (cases "ans t")
  case (Inl e)
  then show ?thesis by (simp add: bnd_ask)
next
  case (Inr x)
  from assms[of x] obtain out where "snd (f x (t @ [ev])) = (t @ [ev]) @ out" "list_all P out"
    unfolding only_def by blast
  then show ?thesis using Inr by (simp add: bnd_ask)
qed

text \<open>The two ways a run can go: it stops before the submission, or it submits.\<close>

lemma call_run_cases:
  obtains (early) pre e where "call_run env a t = (Inl e, t @ pre)" "list_all quiet pre"
  | (submitted) pre req parsed where
      "list_all quiet pre"
      "kv_list_to_dict env (label a) = Inr parsed"
      "req_custom_labels req =
         AList.update ''username'' (username a) (case parsed of None \<Rightarrow> [] | Some d \<Rightarrow> d)"
      "call_run env a t =
         bnd (ask (Submit req) (jstart_workflow env req)) (after_submission env a) (t @ pre)"
proof -
  define v where "v = (if validate a then call_validate env a else ret ())"
  have "only quiet v"
    unfolding v_def by (auto intro!: only_call_validate only_ret simp: quiet_def)
  then obtain pre where pre: "snd (v t) = t @ pre" "list_all quiet pre"
    unfolding only_def by blast
  show thesis
  proof (cases "fst (v t)")
    case (Inl e)
    then have "call_run env a t = (Inl e, t @ pre)"
      using pre(1) unfolding call_run_def v_def[symmetric] by (cases "v t") (simp add: bnd_def)
    then show thesis using pre(2) early by blast
  next
    case (Inr u)
    then have vt: "v t = (Inr u, t @ pre)" using pre(1) by (cases "v t") simp
    show thesis
    proof (cases "kv_list_to_dict env (label a)")
      case (Inl e)
      then have "call_run env a t = (Inl e, t @ pre)"
        unfolding call_run_def v_def[symmetric] by (simp add: bnd_def[of v] vt)
      then show thesis using pre(2) early by blast
    next
      case parsed: (Inr parsed)
      show thesis
      proof (cases "kv_list_to_dict env (extra_options a)")
        case (Inl e)
        then have "call_run env a t = (Inl e, t @ pre)"
          unfolding call_run_def v_def[symmetric] by (simp add: bnd_def[of v] vt parsed Let_def)
        then show thesis using pre(2) early by blast
      next
        case (Inr options)
        define req where "req = \<lparr>req_host = server a, req_wdl_file = wdl a, req_json_file = json a,
                req_dependencies = dependencies a, req_disable_caching = disable_caching a,
                req_extra_options = options, req_bucket = bucket a,
                req_custom_labels = AList.update ''username'' (username a) (case parsed of None \<Rightarrow> [] | Some d \<Rightarrow> d)\<rparr>"
        have "call_run env a t =
           bnd (ask (Submit req) (jstart_workflow env req)) (after_submission env a) (t @ pre)"
          unfolding call_run_def v_def[symmetric] req_def
          by (simp add: bnd_def[of v] vt parsed Inr Let_def)
        moreover have "req_custom_labels req =
           AList.update ''username'' (username a) (case parsed of None \<Rightarrow> [] | Some d \<Rightarrow> d)"
          by (simp add: req_def)
        ultimately show thesis using submitted pre(2) parsed by blast
      qed
    qed
  qed
qed

lemma call_run_errors:
  assumes v: "validate a"
    and r: "\<And>h. validate_json env (wdl a) (json a) h = Inr errs"
    and ne: "errs \<noteq> []"
  shows "call_run env a t =
             (Inl (SystemExit 1),
              t @ [LogInfo ''Validation requested.'', ValidateJson (wdl a) (json a),
                   LogCritical (json a @ '' input file contains the following errors:''
                                @ [CHR 0x0A] @ join_str [CHR 0x0A] errs)])"
  unfolding call_run_def using v
  by (simp add: bnd_def[of "call_validate env a"] call_validate_errors[OF r ne])

lemma main_unfold:
  "main env func a t =
     (case func env (server_rewrite env a)
             (t @ [LogInfo ([CHR 0x0A] @ ''-------------New Choppy Execution by '' @ process_user env
                    @ ''-------------''),
                   LogInfo (''Parameters chosen: '' @ show_args env (server_rewrite env a))]) of
        (Inl e, t') \<Rightarrow> (Inl e, t')
      | (Inr (result, a3), t') \<Rightarrow>
          (Inr (), t' @ [LogInfo (''Result: '' @ py_str env result)]
                   @ (if \<not> monitor a3 then [PrintJson result] else [])
                   @ [LogInfo ([CHR 0x0A] @ ''-------------End Choppy Execution by '' @ process_user env
                    @ ''-------------'')]))"
  unfolding main_def Let_def
  by (simp add: bnd_def split: prod.splits sum.splits)

lemma server_rewrite_fields [simp]:
  "validate (server_rewrite env a) = validate a"
  "wdl (server_rewrite env a) = wdl a"
  "json (server_rewrite env a) = json a"
  "monitor (server_rewrite env a) = monitor a"
  by (simp_all add: server_rewrite_def Let_def)


section \<open>The run after the submission\<close>

lemma get_cromwell_links_metadata:
  "dict_get (get_cromwell_links host wid port) ''metadata'' =
     Inr (''http://'' @ host @ '':'' @ port @ ''/api/workflows/v1/'' @ wid @ ''/metadata'')"
  by (simp add: get_cromwell_links_def dict_get_def)

lemma get_cromwell_links_timing:
  "dict_get (get_cromwell_links host wid port) ''timing'' =
     Inr (''http://'' @ host @ '':'' @ port @ ''/api/workflows/v1/'' @ wid @ ''/timing'')"
  by (simp add: get_cromwell_links_def dict_get_def)

lemma emitted_append: "snd (m t) = t @ out \<Longrightarrow> emitted m t = out"
  by (simp add: emitted_def)

lemma andthen_ret_result:
  "andthen m (ret x) t = (case m t of (Inl e, t') \<Rightarrow> (Inl e, t') | (Inr u, t') \<Rightarrow> (Inr x, t'))"
  by (simp add: andthen_def bnd_def split: prod.splits sum.splits)

lemma snd_andthen_ret: "snd (andthen m (ret x) t) = snd (m t)"
  by (simp add: andthen_ret_result split: prod.splits sum.splits)

lemma after_submission_id:
  assumes "getitem result ''id'' = Inr wid"
  shows "after_submission env a result t =
     andthen (handoff env (a\<lparr>workflow_id := wid\<rparr>)) (ret (result, a\<lparr>workflow_id := wid\<rparr>))
       (t @ [Print ''-------------Cromwell Links-------------'',
             Print (''http://'' @ server a @ '':'' @ cromwell_port env (server a)
                    @ ''/api/workflows/v1/'' @ py_str env wid @ ''/metadata''),
             Print (''http://'' @ server a @ '':'' @ cromwell_port env (server a)
                    @ ''/api/workflows/v1/'' @ py_str env wid @ ''/timing''),
             LogInfo (''Metadata:'' @ ''http://'' @ server a @ '':'' @ cromwell_port env (server a)
                    @ ''/api/workflows/v1/'' @ py_str env wid @ ''/metadata''),
             LogInfo (''Timing Graph:'' @ ''http://'' @ server a @ '':''
                    @ cromwell_port env (server a)
                    @ ''/api/workflows/v1/'' @ py_str env wid @ ''/timing'')])"
  unfolding after_submission_def Let_def
  by (simp add: assms get_cromwell_links_metadata get_cromwell_links_timing)

lemma after_submission_no_id:
  assumes "getitem result ''id'' = Inl e"
  shows "after_submission env a result t =
           (Inl e, t @ [Print ''-------------Cromwell Links-------------''])"
  unfolding after_submission_def by (simp add: assms)

text \<open>A run that returns has submitted, received an id, and handed over.\<close>

lemma call_run_returns:
  assumes ret: "fst (call_run env a t) = Inr (result, a')"
  obtains pre req parsed wid where
    "list_all quiet pre"
    "kv_list_to_dict env (label a) = Inr parsed"
    "req_custom_labels req =
       AList.update ''username'' (username a) (case parsed of None \<Rightarrow> [] | Some d \<Rightarrow> d)"
    "getitem result ''id'' = Inr wid"
    "a' = a\<lparr>workflow_id := wid\<rparr>"
    "call_run env a t =
       andthen (handoff env a') (ret (result, a'))
         (t @ pre @ [Submit req,
             Print ''-------------Cromwell Links-------------'',
             Print (''http://'' @ server a @ '':'' @ cromwell_port env (server a)
                    @ ''/api/workflows/v1/'' @ py_str env wid @ ''/metadata''),
             Print (''http://'' @ server a @ '':'' @ cromwell_port env (server a)
                    @ ''/api/workflows/v1/'' @ py_str env wid @ ''/timing''),
             LogInfo (''Metadata:'' @ ''http://'' @ server a @ '':'' @ cromwell_port env (server a)
                    @ ''/api/workflows/v1/'' @ py_str env wid @ ''/metadata''),
             LogInfo (''Timing Graph:'' @ ''http://'' @ server a @ '':''
                    @ cromwell_port env (server a)
                    @ ''/api/workflows/v1/'' @ py_str env wid @ ''/timing'')])"
proof (cases rule: call_run_cases[of env a t])
  case (early pre e)
  then show ?thesis using ret by simp
next
  case (submitted pre req parsed)
  show ?thesis
  proof (cases "jstart_workflow env req (t @ pre)")
    case (Inl e)
    then show ?thesis using ret submitted(4) by (simp add: bnd_ask)
  next
    case (Inr res)
    then have cr: "call_run env a t = after_submission env a res (t @ pre @ [Submit req])"
      using submitted(4) by (simp add: bnd_ask)
    show ?thesis
    proof (cases "getitem res ''id''")
      case (Inl e)
      then show ?thesis using ret cr by (simp add: after_submission_no_id)
    next
      case wid: (Inr wid)
      note eq = cr[unfolded after_submission_id[OF wid]]
      from ret have "result = res \<and> a' = a\<lparr>workflow_id := wid\<rparr>"
        unfolding eq by (simp add: andthen_ret_result split: prod.splits sum.splits)
      then show ?thesis using that[OF submitted(1,2,3), of wid] wid eq by simp
    qed
  qed
qed

lemma handoff_extends:
  obtains out where "snd (handoff env a t) = t @ out"
    "list_all (\<lambda>e. \<not> is_submit e \<and> \<not> is_print_json e) out"
  using only_handoff[of "\<lambda>e. \<not> is_submit e \<and> \<not> is_print_json e" env a]
  unfolding only_def by auto

text \<open>The example run, evaluated.\<close>

lemma demo_labels:
  "kv_list_to_dict demo_env (Some [''project:demo'', ''username:mallory''])
     = Inr (Some [(''project'', ''demo''), (''username'', ''mallory'')])"
  by (simp add: demo_env_def kv_list_to_dict_spec_def ebind_def split_label_def)

lemma demo_no_labels: "kv_list_to_dict demo_env None = Inr None"
  by (simp add: demo_env_def kv_list_to_dict_spec_def)

lemma demo_run:
  "call_run demo_env demo_args [] =
     (Inr (demo_result, demo_args\<lparr>workflow_id := PStr ''wf-1''\<rparr>),
      [Submit demo_req,
       Print ''-------------Cromwell Links-------------'',
       Print ''http://localhost:8000/api/workflows/v1/wf-1/metadata'',
       Print ''http://localhost:8000/api/workflows/v1/wf-1/timing'',
       LogInfo ''Metadata:http://localhost:8000/api/workflows/v1/wf-1/metadata'',
       LogInfo ''Timing Graph:http://localhost:8000/api/workflows/v1/wf-1/timing''])"
  unfolding call_run_def
  by (simp add: demo_labels[simplified] demo_no_labels demo_args_def Let_def bnd_ask
      demo_req_def demo_result_def)
    (simp add: demo_env_def after_submission_def handoff_def Let_def
      get_cromwell_links_metadata get_cromwell_links_timing py_str_def)

lemma quiet_not_submit: "list_all quiet pre \<Longrightarrow> Submit req \<notin> set pre"
  by (auto simp: list_all_iff quiet_def)

section \<open>The monitoring hand-off\<close>

lemma snd_bnd_ret: "snd (bnd m (\<lambda>x. ret y) t) = snd (m t)"
  by (simp add: bnd_def split: prod.splits sum.splits)

lemma snd_bnd_ret_eta: "snd (bnd m ret t) = snd (m t)"
  by (simp add: bnd_def split: prod.splits sum.splits)

lemma prefix_catch_KeyError:
  assumes "\<And>k. only P (h k)"
  shows "prefix (snd (m t)) (snd (catch_KeyError m h t))"
proof (cases "\<exists>k. fst (m t) = Inl (Exc (KeyError k))")
  case True
  then obtain k where "fst (m t) = Inl (Exc (KeyError k))" by blast
  then have "catch_KeyError m h t = h k (snd (m t))"
    by (cases "m t") (simp add: catch_KeyError_def)
  then show ?thesis using only_prefix[OF assms] by simp
next
  case False
  then have "catch_KeyError m h t = m t"
    by (cases "m t") (auto simp: catch_KeyError_def split: sum.splits exn.splits exc.splits)
  then show ?thesis by simp
qed

lemma call_monitor_calls_monitor:
  "\<exists>ev out. is_monitor_call ev \<and>
     snd (call_monitor env a t) =
       t @ [LogInfo ''Monitoring requested'',
            Print ''-------------Monitoring Workflow-------------'', ev] @ out"
  unfolding call_monitor_def monitor_body_def Let_def
  by (auto simp: catch_Exception_def split: sum.splits exn.splits)

lemma monitor_retry_calls_monitor:
  "\<exists>ev \<in> set (emitted (monitor_retry env a (Suc n)) t). is_monitor_call ev"
proof -
  obtain ev out where ev: "is_monitor_call ev"
    "snd (call_monitor env a t) =
       t @ [LogInfo ''Monitoring requested'',
            Print ''-------------Monitoring Workflow-------------'', ev] @ out"
    using call_monitor_calls_monitor by blast
  have "only (\<lambda>e. True) (andthen (emit (LogDebug (str_exc (KeyError k)))) (monitor_retry env a n))" for k
    by (intro only_andthen only_emit only_monitor_retry) simp_all
  then have "prefix (snd (bnd (call_monitor env a) (\<lambda>_. monitor_retry env a 0) t))
                (snd (monitor_retry env a (Suc n) t))"
    unfolding monitor_retry.simps(2) by (rule prefix_catch_KeyError)
  then have "prefix (snd (call_monitor env a t)) (snd (monitor_retry env a (Suc n) t))"
    by (simp add: snd_bnd_ret snd_bnd_ret_eta)
  then obtain more where "snd (monitor_retry env a (Suc n) t) = snd (call_monitor env a t) @ more"
    unfolding prefix_def by blast
  then have "emitted (monitor_retry env a (Suc n)) t =
      [LogInfo ''Monitoring requested'',
            Print ''-------------Monitoring Workflow-------------'', ev] @ out @ more"
    using ev(2) by (simp add: emitted_def)
  then show ?thesis using ev(1) by auto
qed

lemma handoff_milestones:
  assumes "monitor a"
  shows "\<exists>ms. filter is_milestone (emitted (handoff env a) t) = Sleep 5 # ms
             \<and> ms \<noteq> [] \<and> list_all is_monitor_call ms"
proof -
  define t2 where "t2 = t @ [Sleep 5,
      Print ''These will also be e-mailed to you when the workflow completes.'']"
  define loop where "loop = monitor_retry env a 4"
  have four: "loop = monitor_retry env a (Suc 3)"
    by (simp add: loop_def)
  have h: "handoff env a t = loop t2"
    using assms by (simp add: handoff_def t2_def loop_def)
  have "only (\<lambda>e. \<not> is_submit e \<and> \<not> is_sleep e) loop"
    unfolding loop_def by (rule only_monitor_retry) simp
  then obtain out where out: "snd (loop t2) = t2 @ out"
      "list_all (\<lambda>e. \<not> is_submit e \<and> \<not> is_sleep e) out"
    unfolding only_def by blast
  have em: "emitted loop t2 = out"
    using out(1) by (rule emitted_append)
  from monitor_retry_calls_monitor[of env a 3 t2] em
  have ne: "filter is_milestone out \<noteq> []"
    unfolding four[symmetric] by (auto simp: filter_empty_conv is_milestone_def)
  have all: "list_all is_monitor_call (filter is_milestone out)"
    using out(2) by (auto simp: list_all_iff is_milestone_def)
  have "snd (handoff env a t) = t @ [Sleep 5,
      Print ''These will also be e-mailed to you when the workflow completes.''] @ out"
    unfolding h out(1) by (simp add: t2_def)
  then have "emitted (handoff env a) t = [Sleep 5,
      Print ''These will also be e-mailed to you when the workflow completes.''] @ out"
    by (rule emitted_append)
  then have "filter is_milestone (emitted (handoff env a) t) = Sleep 5 # filter is_milestone out"
    by (simp add: is_milestone_def)
  then show ?thesis using ne all by blast
qed

lemma quiet_filter_milestone: "list_all quiet pre \<Longrightarrow> filter is_milestone pre = []"
  by (auto simp: filter_empty_conv list_all_iff quiet_def is_milestone_def)

lemma quiet_filter_sleep: "list_all quiet pre \<Longrightarrow> filter is_sleep pre = []"
  by (auto simp: filter_empty_conv list_all_iff quiet_def)

lemma call_run_sleep_shape:
  "(filter is_sleep (emitted (call_run env a) t) = []
      \<and> (monitor a \<longrightarrow> (\<exists>e. fst (call_run env a t) = Inl e)))
   \<or> (monitor a
      \<and> (\<exists>req ms. filter is_milestone (emitted (call_run env a) t) = Submit req # Sleep 5 # ms
             \<and> ms \<noteq> [] \<and> list_all is_monitor_call ms))"
proof (cases rule: call_run_cases[of env a t])
  case (early pre e)
  then have "emitted (call_run env a) t = pre" by (simp add: emitted_def)
  then show ?thesis using early quiet_filter_sleep by simp
next
  case (submitted pre req parsed)
  show ?thesis
  proof (cases "jstart_workflow env req (t @ pre)")
    case (Inl e)
    then have cr: "call_run env a t = (Inl e, t @ pre @ [Submit req])"
      using submitted(4) by (simp add: bnd_ask)
    then have "emitted (call_run env a) t = pre @ [Submit req]" by (simp add: emitted_def)
    then show ?thesis using cr quiet_filter_sleep[OF submitted(1)] by simp
  next
    case (Inr res)
    then have cr: "call_run env a t = after_submission env a res (t @ pre @ [Submit req])"
      using submitted(4) by (simp add: bnd_ask)
    show ?thesis
    proof (cases "getitem res ''id''")
      case (Inl e)
      then have cr2: "call_run env a t =
          (Inl e, t @ pre @ [Submit req, Print ''-------------Cromwell Links-------------''])"
        using cr by (simp add: after_submission_no_id)
      then have "emitted (call_run env a) t =
          pre @ [Submit req, Print ''-------------Cromwell Links-------------'']"
        by (simp add: emitted_def)
      then show ?thesis using cr2 quiet_filter_sleep[OF submitted(1)] by simp
    next
      case wid: (Inr wid)
      define a' where "a' = a\<lparr>workflow_id := wid\<rparr>"
      define mid where "mid = [Submit req,
             Print ''-------------Cromwell Links-------------'',
             Print (''http://'' @ server a @ '':'' @ cromwell_port env (server a)
                    @ ''/api/workflows/v1/'' @ py_str env wid @ ''/metadata''),
             Print (''http://'' @ server a @ '':'' @ cromwell_port env (server a)
                    @ ''/api/workflows/v1/'' @ py_str env wid @ ''/timing''),
             LogInfo (''Metadata:'' @ ''http://'' @ server a @ '':'' @ cromwell_port env (server a)
                    @ ''/api/workflows/v1/'' @ py_str env wid @ ''/metadata''),
             LogInfo (''Timing Graph:'' @ ''http://'' @ server a @ '':''
                    @ cromwell_port env (server a)
                    @ ''/api/workflows/v1/'' @ py_str env wid @ ''/timing'')]"
      have m': "monitor a' = monitor a" by (simp add: a'_def)
      have eq: "call_run env a t = andthen (handoff env a') (ret (res, a')) (t @ pre @ mid)"
        unfolding cr after_submission_id[OF wid] a'_def mid_def by simp
      have "snd (handoff env a' (t @ pre @ mid)) = (t @ pre @ mid) @ emitted (handoff env a') (t @ pre @ mid)"
        by (rule only_snd[OF only_handoff[of "\<lambda>e. True"]]) simp
      then have "snd (call_run env a t) = t @ pre @ mid @ emitted (handoff env a') (t @ pre @ mid)"
        unfolding eq snd_andthen_ret by simp
      then have em: "emitted (call_run env a) t = pre @ mid @ emitted (handoff env a') (t @ pre @ mid)"
        by (rule emitted_append)
      show ?thesis
      proof (cases "monitor a")
        case True
        with m' have "monitor a'" by simp
        from handoff_milestones[OF this, of env "t @ pre @ mid"]
        obtain ms where ms: "filter is_milestone (emitted (handoff env a') (t @ pre @ mid)) = Sleep 5 # ms"
          "ms \<noteq> []" "list_all is_monitor_call ms" by blast
        have "filter is_milestone (emitted (call_run env a) t) = Submit req # Sleep 5 # ms"
          unfolding em using quiet_filter_milestone[OF submitted(1)] ms(1)
          by (simp add: mid_def is_milestone_def)
        then show ?thesis using True ms(2,3) by blast
      next
        case False
        with m' have "handoff env a' = ret ()" by (simp add: handoff_def)
        then have "emitted (handoff env a') (t @ pre @ mid) = []" by (simp add: emitted_def)
        then have "filter is_sleep (emitted (call_run env a) t) = []"
          unfolding em using quiet_filter_sleep[OF submitted(1)] by (simp add: mid_def)
        then show ?thesis using False by simp
      qed
    qed
  qed
qed

lemma split_at_unique:
  assumes "pre @ x # post = pre0 @ x0 # out" "P x"
    "list_all (\<lambda>e. \<not> P e) pre0" "list_all (\<lambda>e. \<not> P e) out"
  shows "pre = pre0 \<and> x = x0 \<and> post = out"
  using assms
proof (induction pre0 arbitrary: pre)
  case Nil
  show ?case
  proof (cases pre)
    case Nil
    then show ?thesis using Nil.prems by simp
  next
    case (Cons y ys)
    then have "x \<in> set out" using Nil.prems(1) by auto
    then show ?thesis using Nil.prems(2,4) by (auto simp: list_all_iff)
  qed
next
  case (Cons z zs)
  show ?case
  proof (cases pre)
    case Nil
    then have "x = z" using Cons.prems(1) by simp
    then show ?thesis using Cons.prems(2,3) by simp
  next
    case c: (Cons y ys)
    then have "ys @ x # post = zs @ x0 # out" "y = z" using Cons.prems(1) by simp_all
    then show ?thesis using Cons.IH[of ys] Cons.prems c by simp
  qed
qed

text \<open>A run has at most one submission; what precedes it is validation.\<close>

lemma call_run_submission:
  assumes "emitted (call_run env a) t = pre @ Submit req # post"
  shows "list_all quiet pre
     \<and> call_run env a t =
         bnd (ask (Submit req) (jstart_workflow env req)) (after_submission env a) (t @ pre)"
proof (cases rule: call_run_cases[of env a t])
  case (early pre0 e)
  then have "emitted (call_run env a) t = pre0" by (simp add: emitted_def)
  then have "pre0 = pre @ Submit req # post" using assms by simp
  then have "Submit req \<in> set pre0" by simp
  then show ?thesis using quiet_not_submit[OF early(2)] by simp
next
  case (submitted pre0 req0 parsed)
  have "only (\<lambda>e. \<not> is_submit e) (after_submission env a x)" for x
    by (rule only_after_submission) simp
  from only_submit_then[of "\<lambda>e. \<not> is_submit e" "after_submission env a", OF this]
  obtain out where out: "snd (call_run env a t) = (t @ pre0) @ Submit req0 # out"
      "list_all (\<lambda>e. \<not> is_submit e) out"
    unfolding submitted(4) by blast
  have "emitted (call_run env a) t = pre0 @ Submit req0 # out"
    by (rule emitted_append) (simp add: out)
  then have eq: "pre @ Submit req # post = pre0 @ Submit req0 # out" using assms by simp
  have "list_all (\<lambda>e. \<not> is_submit e) pre0"
    using submitted(1) by (auto simp: list_all_iff quiet_def)
  from split_at_unique[OF eq _ this out(2)]
  have "pre = pre0 \<and> Submit req = Submit req0" by simp
  then show ?thesis using submitted(1,4) by simp
qed

text \<open>The example runs, evaluated.\<close>

lemma demo_env_fields [simp]:
  "kv_list_to_dict demo_env = kv_list_to_dict_spec"
  "jstart_workflow demo_env r t = Inr demo_result"
  "cromwell_port demo_env h = ''8000''"
  "monitor_workflow demo_env m w t = Inr ()"
  "print_log_exit demo_env msg False t = Inr ()"
  "process_user demo_env = ''alice''"
  by (simp_all add: demo_env_def demo_result_def)

lemma keyerror_env_fields [simp]:
  "kv_list_to_dict keyerror_env = kv_list_to_dict_spec"
  "jstart_workflow keyerror_env r t = Inr demo_result"
  "cromwell_port keyerror_env h = ''8000''"
  "monitor_workflow keyerror_env m w t = Inl (Exc (KeyError ''status''))"
  "print_log_exit keyerror_env msg False t = Inr ()"
  by (simp_all add: keyerror_env_def demo_env_def demo_result_def)

lemma unreachable_env_fields [simp]:
  "kv_list_to_dict unreachable_env = kv_list_to_dict_spec"
  "jstart_workflow unreachable_env r t = Inr demo_result"
  "cromwell_port unreachable_env h = ''8000''"
  "monitor_workflow unreachable_env m w t = Inl (Exc (Error ''connection refused''))"
  "print_log_exit unreachable_env msg False t = Inr ()"
  by (simp_all add: unreachable_env_def demo_env_def demo_result_def)

lemma handed_over_args [simp]:
  "monitor (monitored_args\<lparr>workflow_id := PStr ''wf-1''\<rparr>)"
  "\<not> daemon (monitored_args\<lparr>workflow_id := PStr ''wf-1''\<rparr>)"
  "\<lparr>m_host = server monitored_args, m_user = username monitored_args,
     m_no_notify = no_notify monitored_args, m_verbose = verbose monitored_args,
     m_interval = Some (interval monitored_args)\<rparr> = demo_monitor"
  by (simp_all add: monitored_args_def demo_args_def demo_monitor_def)

lemma run_until_handoff:
  assumes "kv_list_to_dict env = kv_list_to_dict_spec"
    and "\<And>r t. jstart_workflow env r t = Inr demo_result"
    and "cromwell_port env ''localhost'' = ''8000''"
  shows "call_run env monitored_args [] =
     andthen (handoff env (monitored_args\<lparr>workflow_id := PStr ''wf-1''\<rparr>))
        (ret (demo_result, monitored_args\<lparr>workflow_id := PStr ''wf-1''\<rparr>))
        (Submit demo_req # demo_links)"
proof -
  have l: "kv_list_to_dict env (label monitored_args)
     = Inr (Some [(''project'', ''demo''), (''username'', ''mallory'')])"
    by (simp add: assms(1) monitored_args_def demo_args_def kv_list_to_dict_spec_def ebind_def split_label_def)
  have o: "kv_list_to_dict env (extra_options monitored_args) = Inr None"
    by (simp add: assms(1) monitored_args_def demo_args_def kv_list_to_dict_spec_def)
  have v: "\<not> validate monitored_args" by (simp add: monitored_args_def demo_args_def)
  have i: "getitem demo_result ''id'' = Inr (PStr ''wf-1'')" by (simp add: demo_result_def)
  have cr: "call_run env monitored_args [] = after_submission env monitored_args demo_result [Submit demo_req]"
    unfolding call_run_def
    by (simp add: l o v Let_def bnd_ask assms(2))
       (simp add: monitored_args_def demo_args_def demo_req_def)
  show ?thesis
    unfolding cr after_submission_id[OF i]
    by (simp add: demo_links_def py_str_def assms(3) monitored_args_def demo_args_def)
qed

lemma demo_monitored_run:
  "call_run demo_env monitored_args [] =
     (Inr (demo_result, monitored_args\<lparr>workflow_id := PStr ''wf-1''\<rparr>),
      Submit demo_req # demo_links @
      [Sleep 5,
       Print ''These will also be e-mailed to you when the workflow completes.'',
       LogInfo ''Monitoring requested'',
       Print ''-------------Monitoring Workflow-------------'',
       MonitorWorkflow demo_monitor (PStr ''wf-1'')])"
proof -
  have rh: "call_run demo_env monitored_args [] =
     andthen (handoff demo_env (monitored_args\<lparr>workflow_id := PStr ''wf-1''\<rparr>))
        (ret (demo_result, monitored_args\<lparr>workflow_id := PStr ''wf-1''\<rparr>))
        (Submit demo_req # demo_links)"
    by (rule run_until_handoff) simp_all
  have ho: "handoff demo_env (monitored_args\<lparr>workflow_id := PStr ''wf-1''\<rparr>) t =
     (Inr (), t @ [Sleep 5,
       Print ''These will also be e-mailed to you when the workflow completes.'',
       LogInfo ''Monitoring requested'',
       Print ''-------------Monitoring Workflow-------------'',
       MonitorWorkflow demo_monitor (PStr ''wf-1'')])" for t
    unfolding handoff_def
    by (simp add: eval_nat_numeral catch_KeyError_def bnd_def call_monitor_def monitor_body_def
          catch_Exception_def Let_def)
  show ?thesis unfolding rh by (simp add: ho andthen_ret_result)
qed

lemma keyerror_monitored_run:
  "call_run keyerror_env monitored_args [] =
     (Inr (demo_result, monitored_args\<lparr>workflow_id := PStr ''wf-1''\<rparr>),
      Submit demo_req # demo_links @
      [Sleep 5,
       Print ''These will also be e-mailed to you when the workflow completes.'',
       LogInfo ''Monitoring requested'',
       Print ''-------------Monitoring Workflow-------------'',
       MonitorWorkflow demo_monitor (PStr ''wf-1''),
       PrintLogExit ([CHR 0x27] @ ''status'' @ [CHR 0x27]) False])"
proof -
  have rh: "call_run keyerror_env monitored_args [] =
     andthen (handoff keyerror_env (monitored_args\<lparr>workflow_id := PStr ''wf-1''\<rparr>))
        (ret (demo_result, monitored_args\<lparr>workflow_id := PStr ''wf-1''\<rparr>))
        (Submit demo_req # demo_links)"
    by (rule run_until_handoff) simp_all
  have ho: "handoff keyerror_env (monitored_args\<lparr>workflow_id := PStr ''wf-1''\<rparr>) t =
     (Inr (), t @ [Sleep 5,
       Print ''These will also be e-mailed to you when the workflow completes.'',
       LogInfo ''Monitoring requested'',
       Print ''-------------Monitoring Workflow-------------'',
       MonitorWorkflow demo_monitor (PStr ''wf-1''),
       PrintLogExit ([CHR 0x27] @ ''status'' @ [CHR 0x27]) False])" for t
    unfolding handoff_def
    by (simp add: eval_nat_numeral catch_KeyError_def bnd_def call_monitor_def monitor_body_def
          catch_Exception_def Let_def)
  show ?thesis unfolding rh by (simp add: ho andthen_ret_result)
qed

lemma unreachable_monitored_run:
  "call_run unreachable_env monitored_args [] =
     (Inr (demo_result, monitored_args\<lparr>workflow_id := PStr ''wf-1''\<rparr>),
      Submit demo_req # demo_links @
      [Sleep 5,
       Print ''These will also be e-mailed to you when the workflow completes.'',
       LogInfo ''Monitoring requested'',
       Print ''-------------Monitoring Workflow-------------'',
       MonitorWorkflow demo_monitor (PStr ''wf-1''),
       PrintLogExit ''connection refused'' False])"
proof -
  have rh: "call_run unreachable_env monitored_args [] =
     andthen (handoff unreachable_env (monitored_args\<lparr>workflow_id := PStr ''wf-1''\<rparr>))
        (ret (demo_result, monitored_args\<lparr>workflow_id := PStr ''wf-1''\<rparr>))
        (Submit demo_req # demo_links)"
    by (rule run_until_handoff) simp_all
  have ho: "handoff unreachable_env (monitored_args\<lparr>workflow_id := PStr ''wf-1''\<rparr>) t =
     (Inr (), t @ [Sleep 5,
       Print ''These will also be e-mailed to you when the workflow completes.'',
       LogInfo ''Monitoring requested'',
       Print ''-------------Monitoring Workflow-------------'',
       MonitorWorkflow demo_monitor (PStr ''wf-1''),
       PrintLogExit ''connection refused'' False])" for t
    unfolding handoff_def
    by (simp add: eval_nat_numeral catch_KeyError_def bnd_def call_monitor_def monitor_body_def
          catch_Exception_def Let_def)
  show ?thesis unfolding rh by (simp add: ho andthen_ret_result)
qed

lemma spoof_run:
  "call_run demo_env spoof_args [] =
     (Inr (demo_result, spoof_args\<lparr>workflow_id := PStr ''wf-1''\<rparr>),
      Submit spoof_req # demo_links)"
proof -
  have i: "getitem demo_result ''id'' = Inr (PStr ''wf-1'')" by (simp add: demo_result_def)
  have l: "kv_list_to_dict demo_env (label spoof_args) = Inr None"
          "kv_list_to_dict demo_env (extra_options spoof_args) = Inr None"
    by (simp_all add: spoof_args_def demo_args_def kv_list_to_dict_spec_def)
  have v: "\<not> validate spoof_args" "\<not> monitor (spoof_args\<lparr>workflow_id := PStr ''wf-1''\<rparr>)"
    by (simp_all add: spoof_args_def demo_args_def)
  have cr: "call_run demo_env spoof_args [] = after_submission demo_env spoof_args demo_result [Submit spoof_req]"
    unfolding call_run_def
    by (simp add: l v Let_def)
       (simp add: spoof_args_def demo_args_def spoof_req_def kv_list_to_dict_spec_def bnd_ask)
  show ?thesis
    unfolding cr after_submission_id[OF i]
    by (simp add: demo_links_def py_str_def handoff_def v) (simp add: spoof_args_def demo_args_def)
qed

text \<open>One call of the monitor, one pass of the loop.\<close>

lemma monitor_body_event:
  "\<exists>ev. is_monitor_call ev \<and> snd (monitor_body env a t) = t @ [ev]"
  unfolding monitor_body_def Let_def by auto

lemma call_monitor_caught:
  assumes "fst (monitor_body env a (t @ [LogInfo ''Monitoring requested'',
             Print ''-------------Monitoring Workflow-------------''])) = Inl (Exc e)"
  shows "call_monitor env a t =
     (print_log_exit env (str_exc e) False
        (snd (monitor_body env a (t @ [LogInfo ''Monitoring requested'',
             Print ''-------------Monitoring Workflow-------------'']))),
      snd (monitor_body env a (t @ [LogInfo ''Monitoring requested'',
             Print ''-------------Monitoring Workflow-------------'']))
        @ [PrintLogExit (str_exc e) False])"
  using assms unfolding call_monitor_def
  by (cases "monitor_body env a (t @ [LogInfo ''Monitoring requested'',
             Print ''-------------Monitoring Workflow-------------''])")
     (simp add: catch_Exception_def)

lemma monitor_retry_step:
  "monitor_retry env a (Suc n) t =
     (case call_monitor env a t of
        (Inr u, t') \<Rightarrow> (Inr (), t')
      | (Inl (Exc (KeyError k)), t') \<Rightarrow>
           monitor_retry env a n (t' @ [LogDebug (str_exc (KeyError k))])
      | (Inl x, t') \<Rightarrow> (Inl x, t'))"
  by (simp add: catch_KeyError_def bnd_def split: prod.splits sum.splits exn.splits exc.splits)

lemma monitor_retry_returns:
  "call_monitor env a t = (Inr (), t') \<Longrightarrow> monitor_retry env a (Suc n) t = (Inr (), t')"
  unfolding monitor_retry_step by simp

lemma monitor_retry_propagates:
  "fst (call_monitor env a t) = Inl x \<Longrightarrow> (\<forall>k. x \<noteq> Exc (KeyError k)) \<Longrightarrow>
     monitor_retry env a (Suc n) t = (Inl x, snd (call_monitor env a t))"
  unfolding monitor_retry_step
  by (cases "call_monitor env a t") (auto split: sum.splits exn.splits exc.splits)

lemma handoff_monitored:
  "monitor a \<Longrightarrow> handoff env a t =
     monitor_retry env a (Suc 3)
       (t @ [Sleep 5, Print ''These will also be e-mailed to you when the workflow completes.''])"
  by (simp add: handoff_def eval_nat_numeral)

text \<open>An exception of the monitor ends the hand-off after one call, when it is reported.\<close>

lemma handoff_exception_reported:
  assumes m: "monitor a"
    and e: "fst (monitor_body env a
              (t @ [Sleep 5,
                    Print ''These will also be e-mailed to you when the workflow completes.'',
                    LogInfo ''Monitoring requested'',
                    Print ''-------------Monitoring Workflow-------------''])) = Inl (Exc e)"
    and p: "\<And>h. print_log_exit env (str_exc e) False h = Inr ()"
  shows "\<exists>ev. is_monitor_call ev \<and>
     handoff env a t =
       (Inr (),
        t @ [Sleep 5,
             Print ''These will also be e-mailed to you when the workflow completes.'',
             LogInfo ''Monitoring requested'',
             Print ''-------------Monitoring Workflow-------------'',
             ev, PrintLogExit (str_exc e) False])"
proof -
  define t1 where "t1 = t @ [Sleep 5,
       Print ''These will also be e-mailed to you when the workflow completes.'']"
  define t2 where "t2 = t1 @ [LogInfo ''Monitoring requested'',
             Print ''-------------Monitoring Workflow-------------'']"
  obtain ev where ev: "is_monitor_call ev" "snd (monitor_body env a t2) = t2 @ [ev]"
    using monitor_body_event by blast
  have e2: "fst (monitor_body env a (t1 @ [LogInfo ''Monitoring requested'',
             Print ''-------------Monitoring Workflow-------------''])) = Inl (Exc e)"
    using e by (simp add: t1_def)
  have "call_monitor env a t1 = (Inr (), t2 @ [ev, PrintLogExit (str_exc e) False])"
    unfolding call_monitor_caught[OF e2] using ev(2) p by (simp add: t2_def)
  then have "monitor_retry env a (Suc 3) t1 = (Inr (), t2 @ [ev, PrintLogExit (str_exc e) False])"
    by (rule monitor_retry_returns)
  then have "handoff env a t = (Inr (), t2 @ [ev, PrintLogExit (str_exc e) False])"
    using handoff_monitored[OF m, of env t] by (simp add: t1_def)
  then show ?thesis using ev(1) by (auto simp: t2_def t1_def)
qed

lemma interrupted_env_fields [simp]:
  "kv_list_to_dict interrupted_env = kv_list_to_dict_spec"
  "jstart_workflow interrupted_env r t = Inr demo_result"
  "cromwell_port interrupted_env h = ''8000''"
  "monitor_workflow interrupted_env m w t = Inl KeyboardInterrupt"
  by (simp_all add: interrupted_env_def demo_env_def demo_result_def)

lemma handed_args_fields [simp]:
  "monitor handed_args"
  "\<not> daemon handed_args"
  "truthy (workflow_id handed_args)"
  "workflow_id handed_args = PStr ''wf-1''"
  "\<lparr>m_host = server handed_args, m_user = username handed_args,
     m_no_notify = no_notify handed_args, m_verbose = verbose handed_args,
     m_interval = Some (interval handed_args)\<rparr> = demo_monitor"
  by (simp_all add: handed_args_def monitored_args_def demo_args_def demo_monitor_def)

lemma handed_monitor_body:
  "monitor_body env handed_args t =
     (monitor_workflow env demo_monitor (PStr ''wf-1'') t,
      t @ [MonitorWorkflow demo_monitor (PStr ''wf-1'')])"
  by (simp add: monitor_body_def Let_def)

lemma unreachable_handoff:
  "handoff unreachable_env handed_args [] =
     (Inr (),
      [Sleep 5,
       Print ''These will also be e-mailed to you when the workflow completes.'',
       LogInfo ''Monitoring requested'',
       Print ''-------------Monitoring Workflow-------------'',
       MonitorWorkflow demo_monitor (PStr ''wf-1''),
       PrintLogExit ''connection refused'' False])"
  unfolding handoff_monitored[OF handed_args_fields(1)] monitor_retry_step
  by (simp add: call_monitor_def catch_Exception_def handed_monitor_body)

lemma interrupted_call_monitor:
  "call_monitor interrupted_env handed_args t =
     (Inl KeyboardInterrupt,
      t @ [LogInfo ''Monitoring requested'',
           Print ''-------------Monitoring Workflow-------------'',
           MonitorWorkflow demo_monitor (PStr ''wf-1'')])"
  by (simp add: call_monitor_def catch_Exception_def handed_monitor_body)

lemma interrupted_handoff:
  "handoff interrupted_env handed_args [] =
     (Inl KeyboardInterrupt,
      [Sleep 5,
       Print ''These will also be e-mailed to you when the workflow completes.'',
       LogInfo ''Monitoring requested'',
       Print ''-------------Monitoring Workflow-------------'',
       MonitorWorkflow demo_monitor (PStr ''wf-1'')])"
  unfolding handoff_monitored[OF handed_args_fields(1)] monitor_retry_step
  by (simp add: interrupted_call_monitor)

lemma call_monitor_events:
  "\<exists>rest. list_all (\<lambda>e. \<not> is_monitor_call e) rest \<and>
     emitted (call_monitor env a) t =
       [LogInfo ''Monitoring requested'',
        Print ''-------------Monitoring Workflow-------------''] @ emitted (monitor_body env a)
          (t @ [LogInfo ''Monitoring requested'',
                Print ''-------------Monitoring Workflow-------------'']) @ rest"
proof -
  define t2 where "t2 = t @ [LogInfo ''Monitoring requested'',
                Print ''-------------Monitoring Workflow-------------'']"
  obtain ev where ev: "snd (monitor_body env a t2) = t2 @ [ev]"
    using monitor_body_event by blast
  then have em: "emitted (monitor_body env a) t2 = [ev]" by (rule emitted_append)
  have "\<exists>rest. list_all (\<lambda>e. \<not> is_monitor_call e) rest \<and>
          snd (call_monitor env a t) = t2 @ [ev] @ rest"
    unfolding call_monitor_def using ev
    by (cases "monitor_body env a t2")
       (auto simp: catch_Exception_def t2_def split: sum.splits exn.splits)
  then obtain rest where rest: "list_all (\<lambda>e. \<not> is_monitor_call e) rest"
      "snd (call_monitor env a t) = t2 @ [ev] @ rest" by blast
  have "emitted (call_monitor env a) t =
         [LogInfo ''Monitoring requested'',
          Print ''-------------Monitoring Workflow-------------''] @ [ev] @ rest"
    by (rule emitted_append) (simp add: rest(2) t2_def)
  then show ?thesis using rest(1) em unfolding t2_def by auto
qed

section \<open>Explaining and querying workflows\<close>

lemma explain_workflow_not_found:
  assumes "query_status env host wid t = Inr PNone"
  shows "explain_workflow env host wid inc t =
           (Inr (PNone, PDict [], PDict []), t @ [QueryStatus host wid])"
  using assms by (simp add: explain_workflow_def bnd_ask)

lemma call_explain_not_found:
  assumes "explain_workflow env (server a) (workflow_id a) (input a)
             (t @ [LogInfo ''Explain requested'']) = (Inr (PNone, x, y), t')"
  shows "call_explain env a t =
           (Inr (PNone, a\<lparr>monitor := True\<rparr>), t' @ [Print ''Workflow not found.''])"
  using assms unfolding call_explain_def
  by (simp add: bnd_def andthen_ret_result)

lemma only_explain_workflow:
  "(\<And>e. \<not> is_print_json e \<Longrightarrow> P e) \<Longrightarrow> only P (explain_workflow env host wid inc)"
  unfolding explain_workflow_def by (auto intro!: only_intros)

lemma only_print_stream:
  "(\<And>e. \<not> is_print_json e \<Longrightarrow> P e) \<Longrightarrow> only P (print_stream env header stream log)"
  unfolding print_stream_def by (auto intro!: only_intros)

lemma only_print_failed_jobs:
  "(\<And>e. \<not> is_print_json e \<Longrightarrow> P e) \<Longrightarrow> only P (print_failed_jobs env jobs)"
  by (induction jobs) (auto intro!: only_intros only_print_stream)

lemma only_call_explain:
  "(\<And>e. \<not> is_print_json e \<Longrightarrow> P e) \<Longrightarrow> only P (call_explain env a)"
  unfolding call_explain_def Let_def
  by (auto intro!: only_intros only_explain_workflow only_print_failed_jobs
           split: prod.splits)

lemma fst_andthen_ret: "fst (andthen m (ret x) t) = Inr y \<Longrightarrow> y = x"
  by (auto simp: andthen_ret_result split: prod.splits sum.splits)

lemma call_explain_returns:
  assumes "fst (call_explain env a t) = Inr (r, a')"
  shows "r = PNone \<and> a' = a\<lparr>monitor := True\<rparr>"
proof -
  define t1 where "t1 = t @ [LogInfo ''Explain requested'']"
  obtain o1 t2 where ex: "explain_workflow env (server a) (workflow_id a) (input a) t1 = (o1, t2)"
    by (cases "explain_workflow env (server a) (workflow_id a) (input a) t1") blast
  show ?thesis
  proof (cases o1)
    case (Inl e)
    then show ?thesis using assms ex unfolding call_explain_def t1_def
      by (simp add: bnd_def)
  next
    case (Inr res)
    obtain x y z where res: "res = (x, y, z)" by (cases res) auto
    show ?thesis using assms ex Inr res unfolding call_explain_def t1_def
      by (simp add: bnd_def[of "explain_workflow env (server a) (workflow_id a) (input a)"])
         (drule fst_andthen_ret, simp)
  qed
qed


lemma main_call_explain:
  "\<exists>out. list_all (\<lambda>e. \<not> is_print_json e) out \<and> snd (main env call_explain a t) = t @ out"
proof -
  define t2 where "t2 = t @ [LogInfo ([CHR 0x0A] @ ''-------------New Choppy Execution by '' @ process_user env
                    @ ''-------------''),
                   LogInfo (''Parameters chosen: '' @ show_args env (server_rewrite env a))]"
  define a2 where "a2 = server_rewrite env a"
  define bye where "bye = LogInfo ([CHR 0x0A] @ ''-------------End Choppy Execution by '' @ process_user env
                    @ ''-------------'')"
  have mu: "main env call_explain a t =
     (case call_explain env a2 t2 of
        (Inl e, t') \<Rightarrow> (Inl e, t')
      | (Inr (result, a3), t') \<Rightarrow>
          (Inr (), t' @ [LogInfo (''Result: '' @ py_str env result)]
                   @ (if \<not> monitor a3 then [PrintJson result] else [])
                   @ [bye]))"
    unfolding t2_def a2_def bye_def by (rule main_unfold)
  obtain pre where pre: "t2 = t @ pre" "list_all (\<lambda>e. \<not> is_print_json e) pre"
    unfolding t2_def by simp
  have bye: "\<not> is_print_json bye" unfolding bye_def by simp
  have o: "only (\<lambda>e. \<not> is_print_json e) (call_explain env a2)"
    by (rule only_call_explain) simp
  obtain out where out: "snd (call_explain env a2 t2) = t2 @ out"
      "list_all (\<lambda>e. \<not> is_print_json e) out"
    using o unfolding only_def by blast
  obtain o1 t3 where run: "call_explain env a2 t2 = (o1, t3)"
    by (cases "call_explain env a2 t2") blast
  have t3: "t3 = t @ pre @ out" using out(1) run pre(1) by simp
  show ?thesis
  proof (cases o1)
    case (Inl e)
    have "snd (main env call_explain a t) = t @ (pre @ out)"
      unfolding mu run Inl t3 by simp
    moreover have "list_all (\<lambda>e. \<not> is_print_json e) (pre @ out)"
      using pre(2) out(2) by simp
    ultimately show ?thesis by blast
  next
    case (Inr res)
    obtain r a3 where res: "res = (r, a3)" by (cases res) auto
    have "fst (call_explain env a2 t2) = Inr (r, a3)" using run Inr res by simp
    then have m: "monitor a3" using call_explain_returns by fastforce
    have "snd (main env call_explain a t) =
        t @ (pre @ out @ [LogInfo (''Result: '' @ py_str env r), bye])"
      unfolding mu run Inr res t3 using m by simp
    moreover have "list_all (\<lambda>e. \<not> is_print_json e)
        (pre @ out @ [LogInfo (''Result: '' @ py_str env r), bye])"
      using pre(2) out(2) bye by simp
    ultimately show ?thesis by blast
  qed
qed

lemma call_query_labels:
  assumes "label_given (label a)" and "workflow_id a \<noteq> PNone"
  shows "call_query env a t =
           (case kv_list_to_dict env (label a) of
              Inl e \<Rightarrow> (Inl e, t @ [LogInfo ''Label query requested.''])
            | Inr labels \<Rightarrow>
                (case query_labels env (server a) labels (t @ [LogInfo ''Label query requested.'']) of
                   Inl e \<Rightarrow> (Inl e, t @ [LogInfo ''Label query requested.'',
                                          QueryLabels (server a) labels])
                 | Inr labeled \<Rightarrow> (Inr (labeled, a), t @ [LogInfo ''Label query requested.'',
                                          QueryLabels (server a) labels])))"
  using assms unfolding call_query_def
  by (simp add: bnd_ask split: sum.splits)

lemma call_query_delegates:
  assumes "\<not> label_given (label a)" and "workflow_id a = PNone \<or> workflow_id a = PStr ''None''"
  shows "call_query env a = call_list env a"
  using assms unfolding call_query_def by auto

lemma demo_explain:
  "call_explain demo_env explain_args t =
     (Inr (PNone, explain_args\<lparr>monitor := True\<rparr>),
      t @ [LogInfo ''Explain requested'', QueryStatus ''localhost'' (PStr ''wf-9''),
           ExplainFound ''localhost'' (PStr ''wf-9'') False,
           Print ''-------------Workflow Status-------------'',
           PPrint (PDict [(''id'', PStr ''wf-9''), (''status'', PStr ''Running'')]),
           Print ''-------------Cromwell Links-------------'',
           Print ''http://localhost:8000/api/workflows/v1/wf-9/metadata'',
           Print ''http://localhost:8000/api/workflows/v1/wf-9/timing''])"
  unfolding call_explain_def explain_workflow_def
  by (simp add: bnd_ask demo_env_def explain_args_def demo_args_def bnd_def andthen_def
        emit_def get_cromwell_links_def dict_get_def py_str_def Let_def)

lemma submission_then_handoff:
  assumes em: "emitted (call_run env a) t = pre @ Submit req # post"
    and ans: "jstart_workflow env req (t @ pre) = Inr result"
    and w: "getitem result ''id'' = Inr w"
  shows "\<exists>mid. list_all quiet mid \<and> list_all quiet pre
           \<and> post = mid @ emitted (handoff env (a\<lparr>workflow_id := w\<rparr>))
                              (t @ pre @ Submit req # mid)
           \<and> fst (call_run env a t) =
               (case fst (handoff env (a\<lparr>workflow_id := w\<rparr>) (t @ pre @ Submit req # mid)) of
                  Inl e \<Rightarrow> Inl e | Inr u \<Rightarrow> Inr (result, a\<lparr>workflow_id := w\<rparr>))"
proof -
  define mid where "mid = [Print ''-------------Cromwell Links-------------'',
             Print (''http://'' @ server a @ '':'' @ cromwell_port env (server a)
                    @ ''/api/workflows/v1/'' @ py_str env w @ ''/metadata''),
             Print (''http://'' @ server a @ '':'' @ cromwell_port env (server a)
                    @ ''/api/workflows/v1/'' @ py_str env w @ ''/timing''),
             LogInfo (''Metadata:'' @ ''http://'' @ server a @ '':'' @ cromwell_port env (server a)
                    @ ''/api/workflows/v1/'' @ py_str env w @ ''/metadata''),
             LogInfo (''Timing Graph:'' @ ''http://'' @ server a @ '':''
                    @ cromwell_port env (server a)
                    @ ''/api/workflows/v1/'' @ py_str env w @ ''/timing'')]"
  define a' where "a' = a\<lparr>workflow_id := w\<rparr>"
  have q: "list_all quiet mid" by (simp add: mid_def quiet_def)
  from call_run_submission[OF em]
  have pre: "list_all quiet pre"
    and "call_run env a t = after_submission env a result (t @ pre @ [Submit req])"
    by (simp_all add: bnd_ask ans)
  then have cr: "call_run env a t =
      andthen (handoff env a') (ret (result, a')) (t @ pre @ Submit req # mid)"
    unfolding after_submission_id[OF w] mid_def a'_def by simp
  have "snd (handoff env a' (t @ pre @ Submit req # mid)) =
      (t @ pre @ Submit req # mid) @ emitted (handoff env a') (t @ pre @ Submit req # mid)"
    by (rule only_snd[OF only_handoff[of "\<lambda>e. True"]]) simp
  then have "snd (call_run env a t) =
      t @ pre @ Submit req # (mid @ emitted (handoff env a') (t @ pre @ Submit req # mid))"
    unfolding cr snd_andthen_ret by simp
  then have "emitted (call_run env a) t =
      pre @ Submit req # (mid @ emitted (handoff env a') (t @ pre @ Submit req # mid))"
    by (rule emitted_append)
  then have post: "post = mid @ emitted (handoff env a') (t @ pre @ Submit req # mid)"
    using em by simp
  have "fst (call_run env a t) =
      (case fst (handoff env a' (t @ pre @ Submit req # mid)) of
         Inl e \<Rightarrow> Inl e | Inr u \<Rightarrow> Inr (result, a'))"
    unfolding cr by (simp add: andthen_ret_result split: prod.splits sum.splits)
  then show ?thesis using q pre post unfolding a'_def by blast
qed

lemma filter_sleep_milestone: "filter is_sleep xs = filter is_sleep (filter is_milestone xs)"
  by (induction xs) (auto simp: is_milestone_def)

lemma filter_monitor_milestone:
  "filter is_monitor_call xs = filter is_monitor_call (filter is_milestone xs)"
  by (induction xs) (auto simp: is_milestone_def)

lemma call_run_milestones:
  "filter is_milestone (emitted (call_run env a) t) = []
   \<or> (\<exists>req. filter is_milestone (emitted (call_run env a) t) = [Submit req])
   \<or> (monitor a
      \<and> (\<exists>req ms. filter is_milestone (emitted (call_run env a) t) = Submit req # Sleep 5 # ms
             \<and> ms \<noteq> [] \<and> list_all is_monitor_call ms))"
proof (cases rule: call_run_cases[of env a t])
  case (early pre e)
  then have "emitted (call_run env a) t = pre" by (simp add: emitted_def)
  then show ?thesis using early quiet_filter_milestone by simp
next
  case (submitted pre req parsed)
  have "only (\<lambda>e. True) (after_submission env a x)" for x
    by (rule only_after_submission) simp
  from only_submit_then[of "\<lambda>e. True" "after_submission env a", OF this]
  obtain post where "snd (call_run env a t) = (t @ pre) @ Submit req # post"
    unfolding submitted(4) by blast
  then have em: "emitted (call_run env a) t = pre @ Submit req # post"
    by (intro emitted_append) simp
  have fp: "filter is_milestone pre = []"
    using submitted(1) by (rule quiet_filter_milestone)
  show ?thesis
  proof (cases "jstart_workflow env req (t @ pre)")
    case (Inl e)
    then have "call_run env a t = (Inl e, t @ pre @ [Submit req])"
      using submitted(4) by (simp add: bnd_ask)
    then have "emitted (call_run env a) t = pre @ [Submit req]" by (simp add: emitted_def)
    then show ?thesis using fp by (simp add: is_milestone_def)
  next
    case (Inr res)
    then have cr: "call_run env a t = after_submission env a res (t @ pre @ [Submit req])"
      using submitted(4) by (simp add: bnd_ask)
    show ?thesis
    proof (cases "getitem res ''id''")
      case (Inl e)
      then have "call_run env a t =
          (Inl e, t @ pre @ [Submit req, Print ''-------------Cromwell Links-------------''])"
        using cr by (simp add: after_submission_no_id)
      then have "emitted (call_run env a) t =
          pre @ [Submit req, Print ''-------------Cromwell Links-------------'']"
        by (simp add: emitted_def)
      then show ?thesis using fp by (simp add: is_milestone_def)
    next
      case wid: (Inr wid)
      define a' where "a' = a\<lparr>workflow_id := wid\<rparr>"
      from submission_then_handoff[OF em Inr wid]
      obtain mid where mid: "list_all quiet mid"
        "post = mid @ emitted (handoff env a') (t @ pre @ Submit req # mid)"
        unfolding a'_def by blast
      have fm: "filter is_milestone mid = []"
        using mid(1) by (rule quiet_filter_milestone)
      have m': "monitor a' = monitor a" by (simp add: a'_def)
      show ?thesis
      proof (cases "monitor a")
        case True
        with m' have "monitor a'" by simp
        from handoff_milestones[OF this, of env "t @ pre @ Submit req # mid"]
        obtain ms where ms:
          "filter is_milestone (emitted (handoff env a') (t @ pre @ Submit req # mid)) = Sleep 5 # ms"
          "ms \<noteq> []" "list_all is_monitor_call ms" by blast
        have "filter is_milestone (emitted (call_run env a) t) = Submit req # Sleep 5 # ms"
          unfolding em mid(2) using fp fm ms(1) by (simp add: is_milestone_def)
        then show ?thesis using True ms(2,3) by blast
      next
        case False
        with m' have "handoff env a' = ret ()" by (simp add: handoff_def)
        then have "emitted (handoff env a') (t @ pre @ Submit req # mid) = []"
          by (simp add: emitted_def)
        then have "filter is_milestone (emitted (call_run env a) t) = [Submit req]"
          unfolding em mid(2) using fp fm by (simp add: is_milestone_def)
        then show ?thesis by blast
      qed
    qed
  qed
qed

lemma submission_then_sleep:
  assumes "monitor a"
    and em: "emitted (call_run env a) t = pre @ Submit req # post"
    and ans: "jstart_workflow env req (t @ pre) = Inr result"
    and w: "getitem result ''id'' = Inr w"
  shows "\<exists>ms. filter is_milestone post = Sleep 5 # ms \<and> ms \<noteq> [] \<and> list_all is_monitor_call ms"
proof -
  define a' where "a' = a\<lparr>workflow_id := w\<rparr>"
  from submission_then_handoff[OF em ans w]
  obtain mid where mid: "list_all quiet mid"
    "post = mid @ emitted (handoff env a') (t @ pre @ Submit req # mid)"
    unfolding a'_def by blast
  have "monitor a'" using assms(1) by (simp add: a'_def)
  from handoff_milestones[OF this, of env "t @ pre @ Submit req # mid"]
  obtain ms where ms:
    "filter is_milestone (emitted (handoff env a') (t @ pre @ Submit req # mid)) = Sleep 5 # ms"
    "ms \<noteq> []" "list_all is_monitor_call ms" by blast
  have "filter is_milestone post = Sleep 5 # ms"
    unfolding mid(2) using quiet_filter_milestone[OF mid(1)] ms(1) by simp
  then show ?thesis using ms(2,3) by blast
qed

lemma interrupted_monitored_run:
  "call_run interrupted_env monitored_args [] =
     (Inl KeyboardInterrupt,
      Submit demo_req # demo_links @
      [Sleep 5,
       Print ''These will also be e-mailed to you when the workflow completes.'',
       LogInfo ''Monitoring requested'',
       Print ''-------------Monitoring Workflow-------------'',
       MonitorWorkflow demo_monitor (PStr ''wf-1'')])"
proof -
  have rh: "call_run interrupted_env monitored_args [] =
     andthen (handoff interrupted_env (monitored_args\<lparr>workflow_id := PStr ''wf-1''\<rparr>))
        (ret (demo_result, monitored_args\<lparr>workflow_id := PStr ''wf-1''\<rparr>))
        (Submit demo_req # demo_links)"
    by (rule run_until_handoff) simp_all
  have ho: "handoff interrupted_env (monitored_args\<lparr>workflow_id := PStr ''wf-1''\<rparr>) t =
     (Inl KeyboardInterrupt, t @ [Sleep 5,
       Print ''These will also be e-mailed to you when the workflow completes.'',
       LogInfo ''Monitoring requested'',
       Print ''-------------Monitoring Workflow-------------'',
       MonitorWorkflow demo_monitor (PStr ''wf-1'')])" for t
    unfolding handoff_def
    by (simp add: eval_nat_numeral catch_KeyError_def bnd_def call_monitor_def monitor_body_def
          catch_Exception_def Let_def)
  show ?thesis unfolding rh by (simp add: ho andthen_ret_result)
qed

section \<open>The claims\<close>

text \<open>
  C6. If validation is requested and the validator returns a non-empty list of error
  strings, the run stops with \<^verbatim>\<open>sys.exit(1)\<close> after logging a report that lists every
  error string, before any submission: \<^verbatim>\<open>call_run\<close> and \<^verbatim>\<open>main\<close> emit no submission and
  the exit status is 1. If the validator returns the empty list, the run goes on to the
  submission: once the labels and the extra options are parsed, the next event after the
  validator's messages is the submission.
\<close>

theorem call_run_validation_gate:
  assumes v: "validate a"
    and r: "\<And>h. validate_json env (wdl a) (json a) h = Inr errs"
  shows "(errs \<noteq> [] \<longrightarrow>
           call_run env a t =
             (Inl (SystemExit 1),
              t @ [LogInfo ''Validation requested.'', ValidateJson (wdl a) (json a),
                   LogCritical (json a @ '' input file contains the following errors:''
                                @ [CHR 0x0A] @ join_str [CHR 0x0A] errs)])
           \<and> (\<forall>e \<in> set errs. sublist e (join_str [CHR 0x0A] errs))
           \<and> filter is_submit (emitted (call_run env a) t) = []
           \<and> exit_code (fst (main env call_run a t)) = 1
           \<and> filter is_submit (emitted (main env call_run a) t) = [])
       \<and> (errs = [] \<longrightarrow>
           (\<forall>labels options. kv_list_to_dict env (label a) = Inr labels \<longrightarrow>
              kv_list_to_dict env (extra_options a) = Inr options \<longrightarrow>
              (\<exists>req. prefix
                 (t @ [LogInfo ''Validation requested.'', ValidateJson (wdl a) (json a),
                       Print (''No errors found in '' @ wdl a),
                       LogInfo (''No errors found in '' @ wdl a), Submit req])
                 (snd (call_run env a t)))))"
proof (intro conjI impI allI)
  assume ne: "errs \<noteq> []"
  show "call_run env a t =
             (Inl (SystemExit 1),
              t @ [LogInfo ''Validation requested.'', ValidateJson (wdl a) (json a),
                   LogCritical (json a @ '' input file contains the following errors:''
                                @ [CHR 0x0A] @ join_str [CHR 0x0A] errs)])"
    using call_run_errors[OF v r ne] .
  show "filter is_submit (emitted (call_run env a) t) = []"
    by (simp add: emitted_def call_run_errors[OF v r ne])
  show "\<forall>e \<in> set errs. sublist e (join_str [CHR 0x0A] errs)"
    by (simp add: sublist_join_str)
  define a2 where "a2 = server_rewrite env a"
  have v2: "validate a2" and r2: "\<And>h. validate_json env (wdl a2) (json a2) h = Inr errs"
    using v r by (simp_all add: a2_def)
  have m: "main env call_run a t =
     (Inl (SystemExit 1),
      t @ [LogInfo ([CHR 0x0A] @ ''-------------New Choppy Execution by '' @ process_user env
                    @ ''-------------''),
           LogInfo (''Parameters chosen: '' @ show_args env a2),
           LogInfo ''Validation requested.'', ValidateJson (wdl a) (json a),
           LogCritical (json a @ '' input file contains the following errors:''
                                @ [CHR 0x0A] @ join_str [CHR 0x0A] errs)])"
    unfolding main_unfold a2_def[symmetric] call_run_errors[OF v2 r2 ne]
    by (simp add: a2_def)
  show "exit_code (fst (main env call_run a t)) = 1" by (simp add: m)
  show "filter is_submit (emitted (main env call_run a) t) = []"
    by (simp add: m emitted_def)
next
  fix labels options
  assume e: "errs = []" and l: "kv_list_to_dict env (label a) = Inr labels"
    and  o: "kv_list_to_dict env (extra_options a) = Inr options"
  define pre where "pre = [LogInfo ''Validation requested.'', ValidateJson (wdl a) (json a),
           Print (''No errors found in '' @ wdl a), LogInfo (''No errors found in '' @ wdl a)]"
  have ok: "call_validate env a t = (Inr (), t @ pre)"
    using call_validate_ok r e by (simp add: pre_def)
  define req where "req = \<lparr>req_host = server a, req_wdl_file = wdl a, req_json_file = json a,
                req_dependencies = dependencies a, req_disable_caching = disable_caching a,
                req_extra_options = options, req_bucket = bucket a,
                req_custom_labels = AList.update ''username'' (username a)
                   (case labels of None \<Rightarrow> [] | Some d \<Rightarrow> d)\<rparr>"
  have cr: "call_run env a t =
      bnd (ask (Submit req) (jstart_workflow env req)) (after_submission env a) (t @ pre)"
    unfolding call_run_def req_def using v
    by (simp add: bnd_def[of "call_validate env a"] ok l o Let_def)
  have "only (\<lambda>e. True) (after_submission env a x)" for x
    by (rule only_after_submission) simp
  then have "prefix ((t @ pre) @ [Submit req]) (snd (call_run env a t))"
    unfolding cr by (rule prefix_after_ask)
  then have "prefix
                 (t @ [LogInfo ''Validation requested.'', ValidateJson (wdl a) (json a),
                       Print (''No errors found in '' @ wdl a),
                       LogInfo (''No errors found in '' @ wdl a), Submit req])
                 (snd (call_run env a t))"
    by (simp add: pre_def)
  then show "\<exists>req. prefix
                 (t @ [LogInfo ''Validation requested.'', ValidateJson (wdl a) (json a),
                       Print (''No errors found in '' @ wdl a),
                       LogInfo (''No errors found in '' @ wdl a), Submit req])
                 (snd (call_run env a t))" ..
qed

theorem call_run_validation_gate_witness:
  "validate validated_args
   \<and> call_run invalid_env validated_args [] =
       (Inl (SystemExit 1),
        [LogInfo ''Validation requested.'', ValidateJson ''wf.wdl'' ''in.json'',
         LogCritical (''in.json input file contains the following errors:'' @ [CHR 0x0A]
            @ ''Missing input x'' @ [CHR 0x0A] @ ''Bad type for y'')])
   \<and> exit_code (fst (main invalid_env call_run validated_args [])) = 1
   \<and> filter is_submit (emitted (main invalid_env call_run validated_args) []) = []
   \<and> (\<exists>req. prefix
         [LogInfo ''Validation requested.'', ValidateJson ''wf.wdl'' ''in.json'',
          Print ''No errors found in wf.wdl'', LogInfo ''No errors found in wf.wdl'',
          Submit req]
         (snd (call_run demo_env validated_args [])))"
proof -
  have a: "validate validated_args" by (simp add: validated_args_def demo_args_def)
  have h1: "\<And>h. validate_json invalid_env (wdl validated_args) (json validated_args) h
              = Inr [''Missing input x'', ''Bad type for y'']"
    by (simp add: invalid_env_def demo_env_def)
  have h2: "\<And>h. validate_json demo_env (wdl validated_args) (json validated_args) h = Inr []"
    by (simp add: demo_env_def)
  have l: "kv_list_to_dict demo_env (label validated_args)
             = Inr (Some [(''project'', ''demo''), (''username'', ''mallory'')])"
    by (simp add: demo_env_def validated_args_def demo_args_def kv_list_to_dict_spec_def
          ebind_def split_label_def)
  have o: "kv_list_to_dict demo_env (extra_options validated_args) = Inr None"
    by (simp add: demo_env_def validated_args_def demo_args_def kv_list_to_dict_spec_def)
  show ?thesis
    using a call_run_validation_gate[OF a h1, of "[]"] call_run_validation_gate[OF a h2, of "[]"] l o
    by (simp add: validated_args_def demo_args_def)
qed

text \<open>
  C3, as amended. Whatever labels the user supplies, the request that \<^verbatim>\<open>call_run\<close>
  submits carries a label mapping in which \<^verbatim>\<open>username\<close> is \<^verbatim>\<open>args.username\<close>: the entry is
  written after the user's pairs are parsed, so it replaces a \<^verbatim>\<open>username\<close> pair of the
  user, and every other key has the value that \<^verbatim>\<open>kv_list_to_dict\<close> gave it.
  \<^verbatim>\<open>args.username\<close> is the invoking user's name by default only: the parser of \<^verbatim>\<open>run\<close>
  has the hidden option \<^verbatim>\<open>-u/--username\<close>.
\<close>

theorem submitted_labels_carry_username:
  assumes "Submit req \<in> set (emitted (call_run env a) t)"
  shows "map_of (req_custom_labels req) ''username'' = Some (username a)
     \<and> (\<exists>parsed. kv_list_to_dict env (label a) = Inr parsed
          \<and> (\<forall>k. k \<noteq> ''username'' \<longrightarrow>
                map_of (req_custom_labels req) k
                  = map_of (case parsed of None \<Rightarrow> [] | Some d \<Rightarrow> d) k))"
proof (cases rule: call_run_cases[of env a t])
  case (early pre e)
  then have "emitted (call_run env a) t = pre" by (simp add: emitted_def)
  then show ?thesis using assms quiet_not_submit[OF early(2)] by simp
next
  case (submitted pre req0 parsed)
  have "only (\<lambda>e. \<not> is_submit e) (after_submission env a x)" for x
    by (rule only_after_submission) simp
  from only_submit_then[of "\<lambda>e. \<not> is_submit e" "after_submission env a", OF this]
  obtain out where out: "snd (call_run env a t) = (t @ pre) @ Submit req0 # out"
      "list_all (\<lambda>e. \<not> is_submit e) out"
    unfolding submitted(4) by blast
  have "emitted (call_run env a) t = pre @ Submit req0 # out"
    by (rule emitted_append) (simp add: out)
  then have "Submit req \<in> set pre \<or> req = req0 \<or> Submit req \<in> set out"
    using assms by auto
  moreover have "Submit req \<notin> set out" using out(2) by (auto simp: list_all_iff)
  ultimately have "req = req0" using quiet_not_submit[OF submitted(1)] by blast
  then show ?thesis using submitted(2,3) by (auto simp: update_conv')
qed

theorem submitted_labels_carry_username_witness:
  "Submit demo_req \<in> set (emitted (call_run demo_env demo_args) [])
   \<and> label demo_args = Some [''project:demo'', ''username:mallory'']
   \<and> username demo_args = ''alice''
   \<and> map_of (req_custom_labels demo_req) ''username'' = Some ''alice''
   \<and> map_of (req_custom_labels demo_req) ''project'' = Some ''demo''"
proof -
  have m: "Submit demo_req \<in> set (emitted (call_run demo_env demo_args) [])"
    by (simp add: emitted_def demo_run)
  from submitted_labels_carry_username[OF m] m show ?thesis
    by (simp add: demo_args_def demo_req_def)
qed

text \<open>
  C8. For every host, port and workflow id \<^verbatim>\<open>get_cromwell_links\<close> returns exactly the two
  links \<^verbatim>\<open>http://host:port/api/workflows/v1/id/metadata\<close> and
  \<^verbatim>\<open>http://host:port/api/workflows/v1/id/timing\<close>. In every run of \<^verbatim>\<open>call_run\<close>, if the
  server answers the submission with a document whose id is \<open>w\<close>, the events that follow
  the submission are the header and the two links for \<open>w\<close>, printed in this order, whatever
  happens afterwards. A run that returns has submitted, and returns the server's answer; a
  run without validation whose labels and options parse starts with the submission.
\<close>

theorem cromwell_links_printed:
  "get_cromwell_links host wid port =
     [(''metadata'', ''http://'' @ host @ '':'' @ port @ ''/api/workflows/v1/'' @ wid @ ''/metadata''),
      (''timing'', ''http://'' @ host @ '':'' @ port @ ''/api/workflows/v1/'' @ wid @ ''/timing'')]
   \<and> (emitted (call_run env a) t = pre @ Submit req # post \<longrightarrow>
        jstart_workflow env req (t @ pre) = Inr result \<longrightarrow>
        getitem result ''id'' = Inr w \<longrightarrow>
        prefix
          [Print ''-------------Cromwell Links-------------'',
           Print (''http://'' @ server a @ '':'' @ cromwell_port env (server a)
                  @ ''/api/workflows/v1/'' @ py_str env w @ ''/metadata''),
           Print (''http://'' @ server a @ '':'' @ cromwell_port env (server a)
                  @ ''/api/workflows/v1/'' @ py_str env w @ ''/timing'')]
          post)
   \<and> (fst (call_run env a t) = Inr (returned, a') \<longrightarrow>
        (\<exists>pre' req' post'.
           emitted (call_run env a) t = pre' @ Submit req' # post'
           \<and> jstart_workflow env req' (t @ pre') = Inr returned
           \<and> getitem returned ''id'' = Inr (workflow_id a')))
   \<and> (\<not> validate a \<longrightarrow>
        kv_list_to_dict env (label a) = Inr labels \<longrightarrow>
        kv_list_to_dict env (extra_options a) = Inr options \<longrightarrow>
        (\<exists>req' post'. emitted (call_run env a) t = Submit req' # post'))"
proof (intro conjI impI)
  show "get_cromwell_links host wid port =
     [(''metadata'', ''http://'' @ host @ '':'' @ port @ ''/api/workflows/v1/'' @ wid @ ''/metadata''),
      (''timing'', ''http://'' @ host @ '':'' @ port @ ''/api/workflows/v1/'' @ wid @ ''/timing'')]"
    by (simp add: get_cromwell_links_def)
next
  assume em: "emitted (call_run env a) t = pre @ Submit req # post"
    and ans: "jstart_workflow env req (t @ pre) = Inr result"
    and w: "getitem result ''id'' = Inr w"
  define M where "M = Print (''http://'' @ server a @ '':'' @ cromwell_port env (server a)
                    @ ''/api/workflows/v1/'' @ py_str env w @ ''/metadata'')"
  define T where "T = Print (''http://'' @ server a @ '':'' @ cromwell_port env (server a)
                    @ ''/api/workflows/v1/'' @ py_str env w @ ''/timing'')"
  define H where "H = Print ''-------------Cromwell Links-------------''"
  define L where "L = [LogInfo (''Metadata:'' @ ''http://'' @ server a @ '':'' @ cromwell_port env (server a)
                    @ ''/api/workflows/v1/'' @ py_str env w @ ''/metadata''),
             LogInfo (''Timing Graph:'' @ ''http://'' @ server a @ '':''
                    @ cromwell_port env (server a)
                    @ ''/api/workflows/v1/'' @ py_str env w @ ''/timing'')]"
  from call_run_submission[OF em]
  have "call_run env a t = after_submission env a result (t @ pre @ [Submit req])"
    by (simp add: bnd_ask ans)
  then have cr: "call_run env a t =
     andthen (handoff env (a\<lparr>workflow_id := w\<rparr>)) (ret (result, a\<lparr>workflow_id := w\<rparr>))
       (t @ pre @ [Submit req, H, M, T] @ L)"
    unfolding after_submission_id[OF w] H_def M_def T_def L_def by simp
  obtain out where "snd (call_run env a t) = (t @ pre @ [Submit req, H, M, T] @ L) @ out"
    unfolding cr snd_andthen_ret by (rule handoff_extends)
  then have "emitted (call_run env a) t = pre @ Submit req # ([H, M, T] @ L @ out)"
    by (intro emitted_append) simp
  then have "post = [H, M, T] @ L @ out" using em by simp
  then show "prefix
          [Print ''-------------Cromwell Links-------------'',
           Print (''http://'' @ server a @ '':'' @ cromwell_port env (server a)
                  @ ''/api/workflows/v1/'' @ py_str env w @ ''/metadata''),
           Print (''http://'' @ server a @ '':'' @ cromwell_port env (server a)
                  @ ''/api/workflows/v1/'' @ py_str env w @ ''/timing'')]
          post"
    unfolding H_def[symmetric] M_def[symmetric] T_def[symmetric] by simp
next
  assume r: "fst (call_run env a t) = Inr (returned, a')"
  show "\<exists>pre' req' post'.
           emitted (call_run env a) t = pre' @ Submit req' # post'
           \<and> jstart_workflow env req' (t @ pre') = Inr returned
           \<and> getitem returned ''id'' = Inr (workflow_id a')"
  proof (cases rule: call_run_cases[of env a t])
    case (early pre0 e)
    then show ?thesis using r by simp
  next
    case (submitted pre0 req0 parsed)
    have "only (\<lambda>e. True) (after_submission env a x)" for x
      by (rule only_after_submission) simp
    from only_submit_then[of "\<lambda>e. True" "after_submission env a", OF this]
    obtain out where out: "snd (call_run env a t) = (t @ pre0) @ Submit req0 # out"
      unfolding submitted(4) by blast
    have em: "emitted (call_run env a) t = pre0 @ Submit req0 # out"
      by (rule emitted_append) (simp add: out)
    show ?thesis
    proof (cases "jstart_workflow env req0 (t @ pre0)")
      case (Inl e)
      then show ?thesis using r submitted(4) by (simp add: bnd_ask)
    next
      case (Inr res)
      then have cr: "call_run env a t = after_submission env a res (t @ pre0 @ [Submit req0])"
        using submitted(4) by (simp add: bnd_ask)
      show ?thesis
      proof (cases "getitem res ''id''")
        case (Inl e)
        then show ?thesis using r cr by (simp add: after_submission_no_id)
      next
        case wid: (Inr wid)
        from r have "returned = res \<and> a' = a\<lparr>workflow_id := wid\<rparr>"
          unfolding cr after_submission_id[OF wid]
          by (simp add: andthen_ret_result split: prod.splits sum.splits)
        then show ?thesis using em Inr wid by auto
      qed
    qed
  qed
next
  assume v: "\<not> validate a"
    and l: "kv_list_to_dict env (label a) = Inr labels"
    and o: "kv_list_to_dict env (extra_options a) = Inr options"
  define req where "req = \<lparr>req_host = server a, req_wdl_file = wdl a, req_json_file = json a,
                req_dependencies = dependencies a, req_disable_caching = disable_caching a,
                req_extra_options = options, req_bucket = bucket a,
                req_custom_labels = AList.update ''username'' (username a)
                   (case labels of None \<Rightarrow> [] | Some d \<Rightarrow> d)\<rparr>"
  have cr: "call_run env a t =
      bnd (ask (Submit req) (jstart_workflow env req)) (after_submission env a) t"
    unfolding call_run_def req_def using v by (simp add: l o Let_def)
  have "only (\<lambda>e. True) (after_submission env a x)" for x
    by (rule only_after_submission) simp
  from only_submit_then[of "\<lambda>e. True" "after_submission env a", OF this]
  obtain out where "snd (call_run env a t) = t @ Submit req # out"
    unfolding cr by blast
  then have "emitted (call_run env a) t = Submit req # out" by (rule emitted_append)
  then show "\<exists>req' post'. emitted (call_run env a) t = Submit req' # post'" by blast
qed

theorem cromwell_links_printed_witness:
  "emitted (call_run demo_env demo_args) [] = [] @ Submit demo_req # demo_links
   \<and> jstart_workflow demo_env demo_req ([] @ []) = Inr demo_result
   \<and> getitem demo_result ''id'' = Inr (PStr ''wf-1'')
   \<and> prefix [Print ''-------------Cromwell Links-------------'',
              Print ''http://localhost:8000/api/workflows/v1/wf-1/metadata'',
              Print ''http://localhost:8000/api/workflows/v1/wf-1/timing'']
        demo_links
   \<and> fst (call_run demo_env demo_args []) =
        Inr (demo_result, demo_args\<lparr>workflow_id := PStr ''wf-1''\<rparr>)
   \<and> \<not> validate demo_args"
proof -
  have e: "emitted (call_run demo_env demo_args) [] = [] @ Submit demo_req # demo_links"
    by (simp add: emitted_def demo_run demo_links_def)
  have j: "jstart_workflow demo_env demo_req ([] @ []) = Inr demo_result" by simp
  have i: "getitem demo_result ''id'' = Inr (PStr ''wf-1'')" by (simp add: demo_result_def)
  have r: "fst (call_run demo_env demo_args []) =
        Inr (demo_result, demo_args\<lparr>workflow_id := PStr ''wf-1''\<rparr>)"
    by (simp add: demo_run)
  from cromwell_links_printed[of "''localhost''" "''wf-1''" "''8000''" demo_env demo_args "[]"
         "[]" demo_req demo_links demo_result "PStr ''wf-1''"] e j i r
  show ?thesis by (simp add: demo_args_def py_str_def)
qed

text \<open>
  C3, as the specification words it, fails: alice runs \<^verbatim>\<open>choppy run -u mallory\<close>, and the
  label that is submitted is \<^verbatim>\<open>mallory\<close>, not the name of the invoking user.
\<close>

theorem submitted_username_is_not_the_invoking_user:
  "process_user demo_env = ''alice''
   \<and> username spoof_args = ''mallory''
   \<and> emitted (call_run demo_env spoof_args) [] = Submit spoof_req # demo_links
   \<and> map_of (req_custom_labels spoof_req) ''username'' = Some ''mallory''
   \<and> map_of (req_custom_labels spoof_req) ''username'' \<noteq> Some (process_user demo_env)"
  by (simp add: spoof_run emitted_def) (simp add: spoof_args_def spoof_req_def)

text \<open>
  C2, as amended. During the monitoring hand-off of \<^verbatim>\<open>call_run\<close>, an error of the monitor
  that is an \<^verbatim>\<open>Exception\<close> of another class than \<^verbatim>\<open>KeyError\<close> is not retried and is not
  raised to the caller: \<^verbatim>\<open>call_monitor\<close> catches it and hands its message to
  \<^verbatim>\<open>print_log_exit\<close> with \<^verbatim>\<open>sys_exit=False\<close>; when that returns, the hand-off ends after this
  one call of the monitor. An exception that leaves \<^verbatim>\<open>call_monitor\<close> and is not a
  \<^verbatim>\<open>KeyError\<close> leaves the hand-off at once, without another call.
\<close>

theorem monitor_error_reported_not_raised:
  assumes "monitor a"
  shows "(fst (monitor_body env a
              (t @ [Sleep 5,
                    Print ''These will also be e-mailed to you when the workflow completes.'',
                    LogInfo ''Monitoring requested'',
                    Print ''-------------Monitoring Workflow-------------''])) = Inl (Exc e)
          \<longrightarrow> (\<forall>k. e \<noteq> KeyError k)
          \<longrightarrow> (\<forall>h. print_log_exit env (str_exc e) False h = Inr ())
          \<longrightarrow> (\<exists>ev. is_monitor_call ev \<and>
                 handoff env a t =
                   (Inr (),
                    t @ [Sleep 5,
                         Print ''These will also be e-mailed to you when the workflow completes.'',
                         LogInfo ''Monitoring requested'',
                         Print ''-------------Monitoring Workflow-------------'',
                         ev, PrintLogExit (str_exc e) False])))
     \<and> (fst (call_monitor env a
              (t @ [Sleep 5,
                    Print ''These will also be e-mailed to you when the workflow completes.'']))
            = Inl x
          \<longrightarrow> (\<forall>k. x \<noteq> Exc (KeyError k))
          \<longrightarrow> handoff env a t =
                (Inl x,
                 snd (call_monitor env a
                   (t @ [Sleep 5,
                     Print ''These will also be e-mailed to you when the workflow completes.'']))))"
proof (intro conjI impI)
  assume "fst (monitor_body env a
              (t @ [Sleep 5,
                    Print ''These will also be e-mailed to you when the workflow completes.'',
                    LogInfo ''Monitoring requested'',
                    Print ''-------------Monitoring Workflow-------------''])) = Inl (Exc e)"
    and "\<forall>h. print_log_exit env (str_exc e) False h = Inr ()"
  then show "\<exists>ev. is_monitor_call ev \<and>
                 handoff env a t =
                   (Inr (),
                    t @ [Sleep 5,
                         Print ''These will also be e-mailed to you when the workflow completes.'',
                         LogInfo ''Monitoring requested'',
                         Print ''-------------Monitoring Workflow-------------'',
                         ev, PrintLogExit (str_exc e) False])"
    using handoff_exception_reported[OF assms, of env t e] by simp
next
  assume "fst (call_monitor env a
              (t @ [Sleep 5,
                    Print ''These will also be e-mailed to you when the workflow completes.'']))
            = Inl x"
    and "\<forall>k. x \<noteq> Exc (KeyError k)"
  then show "handoff env a t =
                (Inl x,
                 snd (call_monitor env a
                   (t @ [Sleep 5,
                     Print ''These will also be e-mailed to you when the workflow completes.''])))"
    unfolding handoff_monitored[OF assms] by (rule monitor_retry_propagates)
qed

theorem monitor_error_reported_not_raised_witness:
  "monitor handed_args
   \<and> fst (monitor_body unreachable_env handed_args
          ([] @ [Sleep 5,
                Print ''These will also be e-mailed to you when the workflow completes.'',
                LogInfo ''Monitoring requested'',
                Print ''-------------Monitoring Workflow-------------'']))
       = Inl (Exc (Error ''connection refused''))
   \<and> handoff unreachable_env handed_args [] =
       (Inr (),
        [Sleep 5,
         Print ''These will also be e-mailed to you when the workflow completes.'',
         LogInfo ''Monitoring requested'',
         Print ''-------------Monitoring Workflow-------------'',
         MonitorWorkflow demo_monitor (PStr ''wf-1''),
         PrintLogExit ''connection refused'' False])
   \<and> fst (call_monitor interrupted_env handed_args
          ([] @ [Sleep 5,
                Print ''These will also be e-mailed to you when the workflow completes.'']))
       = Inl KeyboardInterrupt
   \<and> handoff interrupted_env handed_args [] =
       (Inl KeyboardInterrupt,
        [Sleep 5,
         Print ''These will also be e-mailed to you when the workflow completes.'',
         LogInfo ''Monitoring requested'',
         Print ''-------------Monitoring Workflow-------------'',
         MonitorWorkflow demo_monitor (PStr ''wf-1'')])"
proof -
  have m: "monitor handed_args" by simp
  from monitor_error_reported_not_raised[OF m, of unreachable_env "[]" "Error ''connection refused''"]
       monitor_error_reported_not_raised[OF m, of interrupted_env "[]" _ KeyboardInterrupt]
  show ?thesis
    by (simp add: handed_monitor_body interrupted_call_monitor unreachable_handoff
          interrupted_handoff)
qed

text \<open>
  C2, as the specification words it, fails: the monitor cannot reach the server, a
  connection error and not a \<^verbatim>\<open>KeyError\<close>; nothing is raised to the caller of
  \<^verbatim>\<open>call_run\<close>, which returns the answer of the submission after \<^verbatim>\<open>print_log_exit\<close> was given
  the message.
\<close>

theorem monitor_error_is_not_surfaced:
  "monitor_workflow unreachable_env demo_monitor (PStr ''wf-1'') [] =
      Inl (Exc (Error ''connection refused''))
   \<and> call_run unreachable_env monitored_args [] =
     (Inr (demo_result, handed_args),
      Submit demo_req # demo_links @
      [Sleep 5,
       Print ''These will also be e-mailed to you when the workflow completes.'',
       LogInfo ''Monitoring requested'',
       Print ''-------------Monitoring Workflow-------------'',
       MonitorWorkflow demo_monitor (PStr ''wf-1''),
       PrintLogExit ''connection refused'' False])
   \<and> fst (call_run unreachable_env monitored_args []) \<noteq> Inl (Exc (Error ''connection refused''))"
  by (simp add: unreachable_monitored_run handed_args_def)

text \<open>
  C1 fails on the code: the monitor raises \<^verbatim>\<open>KeyError\<close> whenever it is called, and the run
  calls it once. \<^verbatim>\<open>call_monitor\<close> catches the \<^verbatim>\<open>KeyError\<close> with \<^verbatim>\<open>except Exception\<close> and
  returns, so the loop of \<^verbatim>\<open>call_run\<close> sets \<^verbatim>\<open>retry\<close> to 0 at once: no decrement, no debug
  record, no second call.
\<close>

theorem monitor_keyerror_is_not_retried:
  "monitor_workflow keyerror_env demo_monitor (PStr ''wf-1'') [] = Inl (Exc (KeyError ''status''))
   \<and> call_run keyerror_env monitored_args [] =
     (Inr (demo_result, handed_args),
      Submit demo_req # demo_links @
      [Sleep 5,
       Print ''These will also be e-mailed to you when the workflow completes.'',
       LogInfo ''Monitoring requested'',
       Print ''-------------Monitoring Workflow-------------'',
       MonitorWorkflow demo_monitor (PStr ''wf-1''),
       PrintLogExit ([CHR 0x27] @ ''status'' @ [CHR 0x27]) False])
   \<and> length (filter is_monitor_call (emitted (call_run keyerror_env monitored_args) [])) = 1"
  by (simp add: keyerror_monitored_run handed_args_def emitted_def demo_links_def)

text \<open>
  C4, as amended. In both modes \<^verbatim>\<open>call_monitor\<close> builds the monitor from the same host,
  \<^verbatim>\<open>no_notify\<close>, \<^verbatim>\<open>verbose\<close> and \<^verbatim>\<open>interval\<close>, with the user \<^verbatim>\<open>*\<close> in daemon mode and
  \<^verbatim>\<open>args.username\<close> otherwise. It calls one operation of it: \<^verbatim>\<open>run\<close> in daemon mode; in
  single-user mode \<^verbatim>\<open>monitor_workflow\<close> with the workflow id when one is given, and
  \<^verbatim>\<open>monitor_user_workflows\<close> otherwise. The outcome of that operation is the outcome of the
  \<^verbatim>\<open>try\<close> block.
\<close>

theorem call_monitor_operation:
  "filter is_monitor_call (emitted (call_monitor env a) t) =
     [if daemon a
      then MonitorRun \<lparr>m_host = server a, m_user = ''*'', m_no_notify = no_notify a,
                       m_verbose = verbose a, m_interval = Some (interval a)\<rparr>
      else if truthy (workflow_id a)
      then MonitorWorkflow \<lparr>m_host = server a, m_user = username a, m_no_notify = no_notify a,
                       m_verbose = verbose a, m_interval = Some (interval a)\<rparr> (workflow_id a)
      else MonitorUserWorkflows \<lparr>m_host = server a, m_user = username a,
                       m_no_notify = no_notify a, m_verbose = verbose a,
                       m_interval = Some (interval a)\<rparr>]
   \<and> fst (monitor_body env a t) =
     (if daemon a
      then monitor_run env \<lparr>m_host = server a, m_user = ''*'', m_no_notify = no_notify a,
                       m_verbose = verbose a, m_interval = Some (interval a)\<rparr> t
      else if truthy (workflow_id a)
      then monitor_workflow env \<lparr>m_host = server a, m_user = username a,
                       m_no_notify = no_notify a, m_verbose = verbose a,
                       m_interval = Some (interval a)\<rparr> (workflow_id a) t
      else monitor_user_workflows env \<lparr>m_host = server a, m_user = username a,
                       m_no_notify = no_notify a, m_verbose = verbose a,
                       m_interval = Some (interval a)\<rparr> t)"
proof
  obtain rest where rest: "list_all (\<lambda>e. \<not> is_monitor_call e) rest"
    "emitted (call_monitor env a) t =
       [LogInfo ''Monitoring requested'',
        Print ''-------------Monitoring Workflow-------------''] @ emitted (monitor_body env a)
          (t @ [LogInfo ''Monitoring requested'',
                Print ''-------------Monitoring Workflow-------------'']) @ rest"
    using call_monitor_events by blast
  have "filter is_monitor_call rest = []"
    using rest(1) by (auto simp: filter_empty_conv list_all_iff)
  then show "filter is_monitor_call (emitted (call_monitor env a) t) =
     [if daemon a
      then MonitorRun \<lparr>m_host = server a, m_user = ''*'', m_no_notify = no_notify a,
                       m_verbose = verbose a, m_interval = Some (interval a)\<rparr>
      else if truthy (workflow_id a)
      then MonitorWorkflow \<lparr>m_host = server a, m_user = username a, m_no_notify = no_notify a,
                       m_verbose = verbose a, m_interval = Some (interval a)\<rparr> (workflow_id a)
      else MonitorUserWorkflows \<lparr>m_host = server a, m_user = username a,
                       m_no_notify = no_notify a, m_verbose = verbose a,
                       m_interval = Some (interval a)\<rparr>]"
    unfolding rest(2) by (simp add: emitted_def monitor_body_def Let_def)
next
  show "fst (monitor_body env a t) =
     (if daemon a
      then monitor_run env \<lparr>m_host = server a, m_user = ''*'', m_no_notify = no_notify a,
                       m_verbose = verbose a, m_interval = Some (interval a)\<rparr> t
      else if truthy (workflow_id a)
      then monitor_workflow env \<lparr>m_host = server a, m_user = username a,
                       m_no_notify = no_notify a, m_verbose = verbose a,
                       m_interval = Some (interval a)\<rparr> (workflow_id a) t
      else monitor_user_workflows env \<lparr>m_host = server a, m_user = username a,
                       m_no_notify = no_notify a, m_verbose = verbose a,
                       m_interval = Some (interval a)\<rparr> t)"
    by (simp add: monitor_body_def Let_def)
qed

theorem call_monitor_operation_witness:
  "\<not> daemon handed_args \<and> truthy (workflow_id handed_args)
   \<and> filter is_monitor_call (emitted (call_monitor demo_env handed_args) []) =
       [MonitorWorkflow demo_monitor (PStr ''wf-1'')]
   \<and> fst (monitor_body demo_env handed_args []) =
        monitor_workflow demo_env demo_monitor (PStr ''wf-1'') []"
  using call_monitor_operation[of demo_env handed_args "[]"] by simp

text \<open>
  C4, as the specification words it, fails: with the owner \<^verbatim>\<open>*\<close> in single-user mode too,
  the monitor is built from the same five arguments in both modes, and the modes still
  differ: daemon mode calls \<^verbatim>\<open>run\<close>, single-user mode calls \<^verbatim>\<open>monitor_user_workflows\<close>, or
  \<^verbatim>\<open>monitor_workflow\<close> for the one workflow whose id is given.
\<close>

theorem daemon_mode_calls_another_operation:
  "filter is_monitor_call (emitted (call_monitor demo_env (star_args\<lparr>daemon := True\<rparr>)) []) =
      [MonitorRun star_monitor]
   \<and> filter is_monitor_call (emitted (call_monitor demo_env star_args) []) =
      [MonitorUserWorkflows star_monitor]
   \<and> filter is_monitor_call
        (emitted (call_monitor demo_env (star_args\<lparr>workflow_id := PStr ''wf-1''\<rparr>)) []) =
      [MonitorWorkflow star_monitor (PStr ''wf-1'')]"
  by (simp add: emitted_def call_monitor_def monitor_body_def catch_Exception_def Let_def
        star_args_def demo_args_def star_monitor_def demo_env_def)

text \<open>
  C5. \<^verbatim>\<open>call_explain\<close> on a workflow id that the server cannot resolve. When the status query
  for the id answers \<^verbatim>\<open>None\<close>, \<^verbatim>\<open>explain_workflow\<close>, as the specification describes it,
  returns \<^verbatim>\<open>(None, {}, {})\<close> after that one query, and \<^verbatim>\<open>call_explain\<close> prints
  \<^verbatim>\<open>Workflow not found.\<close> and nothing else: no status report, no additional parameters, no
  links. The second part is about the code of \<^verbatim>\<open>call_explain\<close> alone: whenever
  \<^verbatim>\<open>explain_workflow\<close> returns a triple whose first component is \<^verbatim>\<open>None\<close>, whatever the
  other two are, the one thing \<^verbatim>\<open>call_explain\<close> adds is the line \<^verbatim>\<open>Workflow not found.\<close>,
  and it returns \<^verbatim>\<open>None\<close> with \<^verbatim>\<open>args.monitor\<close> set.
\<close>

theorem explain_unknown_workflow:
  "(query_status env (server a) (workflow_id a) (t @ [LogInfo ''Explain requested'']) = Inr PNone
      \<longrightarrow>
      explain_workflow env (server a) (workflow_id a) (input a)
          (t @ [LogInfo ''Explain requested'']) =
        (Inr (PNone, PDict [], PDict []),
         t @ [LogInfo ''Explain requested'', QueryStatus (server a) (workflow_id a)])
      \<and> call_explain env a t =
        (Inr (PNone, a\<lparr>monitor := True\<rparr>),
         t @ [LogInfo ''Explain requested'', QueryStatus (server a) (workflow_id a),
              Print ''Workflow not found.'']))
   \<and> (explain_workflow env (server a) (workflow_id a) (input a)
          (t @ [LogInfo ''Explain requested'']) = (Inr (PNone, x, y), t')
      \<longrightarrow>
      call_explain env a t =
        (Inr (PNone, a\<lparr>monitor := True\<rparr>), t' @ [Print ''Workflow not found.'']))"
proof (intro conjI impI)
  assume q: "query_status env (server a) (workflow_id a) (t @ [LogInfo ''Explain requested''])
               = Inr PNone"
  show ex: "explain_workflow env (server a) (workflow_id a) (input a)
          (t @ [LogInfo ''Explain requested'']) =
        (Inr (PNone, PDict [], PDict []),
         t @ [LogInfo ''Explain requested'', QueryStatus (server a) (workflow_id a)])"
    using explain_workflow_not_found[OF q, of "input a"] by simp
  show "call_explain env a t =
        (Inr (PNone, a\<lparr>monitor := True\<rparr>),
         t @ [LogInfo ''Explain requested'', QueryStatus (server a) (workflow_id a),
              Print ''Workflow not found.''])"
    using call_explain_not_found[OF ex] by simp
next
  assume "explain_workflow env (server a) (workflow_id a) (input a)
          (t @ [LogInfo ''Explain requested'']) = (Inr (PNone, x, y), t')"
  then show "call_explain env a t =
        (Inr (PNone, a\<lparr>monitor := True\<rparr>), t' @ [Print ''Workflow not found.''])"
    by (rule call_explain_not_found)
qed

theorem explain_unknown_workflow_witness:
  "query_status unknown_env ''localhost'' (PStr ''wf-9'') [LogInfo ''Explain requested'']
     = Inr PNone
   \<and> explain_workflow unknown_env ''localhost'' (PStr ''wf-9'') False
        [LogInfo ''Explain requested''] =
       (Inr (PNone, PDict [], PDict []),
        [LogInfo ''Explain requested'', QueryStatus ''localhost'' (PStr ''wf-9'')])
   \<and> call_explain unknown_env explain_args [] =
       (Inr (PNone, explain_args\<lparr>monitor := True\<rparr>),
        [LogInfo ''Explain requested'', QueryStatus ''localhost'' (PStr ''wf-9''),
         Print ''Workflow not found.''])"
  using explain_unknown_workflow[where env = unknown_env and a = explain_args and t = "[]"
          and x = "PDict []" and y = "PDict []"
          and t' = "[LogInfo ''Explain requested'', QueryStatus ''localhost'' (PStr ''wf-9'')]"]
  by (simp add: unknown_env_def explain_args_def demo_args_def)

text \<open>
  C10. Whenever \<^verbatim>\<open>call_explain\<close> returns, found or not, it returns \<^verbatim>\<open>None\<close> and the
  arguments with \<^verbatim>\<open>monitor\<close> set to \<^verbatim>\<open>True\<close> and nothing else changed; and \<^verbatim>\<open>main\<close>, run with
  \<^verbatim>\<open>call_explain\<close> as the subcommand, never prints the JSON dump of the result, whether
  \<^verbatim>\<open>call_explain\<close> returns or raises.
\<close>

theorem explain_suppresses_json_dump:
  "(fst (call_explain env a t) = Inr (r, a') \<longrightarrow>
      r = PNone \<and> a' = a\<lparr>monitor := True\<rparr> \<and> monitor a')
   \<and> filter is_print_json (emitted (main env call_explain a) t) = []"
proof
  show "fst (call_explain env a t) = Inr (r, a') \<longrightarrow>
      r = PNone \<and> a' = a\<lparr>monitor := True\<rparr> \<and> monitor a'"
    using call_explain_returns[of env a t r a'] by auto
next
  obtain out where out: "list_all (\<lambda>e. \<not> is_print_json e) out"
      "snd (main env call_explain a t) = t @ out"
    using main_call_explain by blast
  have "emitted (main env call_explain a) t = out"
    using out(2) by (rule emitted_append)
  then show "filter is_print_json (emitted (main env call_explain a) t) = []"
    using out(1) by (auto simp: filter_empty_conv list_all_iff)
qed

theorem explain_suppresses_json_dump_witness:
  "\<not> monitor explain_args
   \<and> fst (call_explain demo_env explain_args []) = Inr (PNone, explain_args\<lparr>monitor := True\<rparr>)
   \<and> filter is_print_json (emitted (main demo_env call_explain explain_args) []) = []
   \<and> fst (main demo_env call_explain explain_args []) = Inr ()
   \<and> fst (call_explain unknown_env explain_args []) = Inr (PNone, explain_args\<lparr>monitor := True\<rparr>)
   \<and> filter is_print_json (emitted (main unknown_env call_explain explain_args) []) = []"
proof -
  have found: "fst (call_explain demo_env explain_args []) =
      Inr (PNone, explain_args\<lparr>monitor := True\<rparr>)"
    by (simp add: demo_explain)
  have unknown: "fst (call_explain unknown_env explain_args []) =
      Inr (PNone, explain_args\<lparr>monitor := True\<rparr>)"
    unfolding call_explain_def explain_workflow_def
    by (simp add: bnd_ask unknown_env_def explain_args_def demo_args_def bnd_def)
  have rw: "server_rewrite demo_env explain_args = explain_args"
    by (simp add: server_rewrite_def explain_args_def demo_args_def)
  have run: "fst (main demo_env call_explain explain_args []) = Inr ()"
    unfolding main_unfold rw demo_explain by simp
  have "\<not> monitor explain_args" by (simp add: explain_args_def demo_args_def)
  then show ?thesis
    using explain_suppresses_json_dump[of demo_env explain_args "[]" PNone
            "explain_args\<lparr>monitor := True\<rparr>"]
          explain_suppresses_json_dump[of unknown_env explain_args "[]" PNone
            "explain_args\<lparr>monitor := True\<rparr>"]
          found unknown run
    by simp
qed

text \<open>
  C9. A namespace of the \<^verbatim>\<open>query\<close> parser never has \<^verbatim>\<open>None\<close> as its workflow id: the
  positional argument defaults to the string \<^verbatim>\<open>"None"\<close>. For such arguments with at least one
  label, \<^verbatim>\<open>call_query\<close> logs the request, parses the labels, asks the server for the
  workflows with these labels and returns that answer unchanged, whatever the flags
  \<^verbatim>\<open>status\<close>, \<^verbatim>\<open>metadata\<close> and \<^verbatim>\<open>logs\<close> are: it queries neither status, metadata nor logs.
  With no label and no workflow id (\<^verbatim>\<open>"None"\<close>, or \<^verbatim>\<open>None\<close>), \<^verbatim>\<open>call_query\<close> is \<^verbatim>\<open>call_list\<close>.
\<close>

theorem call_query_label_precedence:
  "(label_given (label a) \<longrightarrow> workflow_id a \<noteq> PNone \<longrightarrow>
      call_query env a t =
        (case kv_list_to_dict env (label a) of
           Inl e \<Rightarrow> (Inl e, t @ [LogInfo ''Label query requested.''])
         | Inr labels \<Rightarrow>
             (case query_labels env (server a) labels
                     (t @ [LogInfo ''Label query requested.'']) of
                Inl e \<Rightarrow> (Inl e, t @ [LogInfo ''Label query requested.'',
                                       QueryLabels (server a) labels])
              | Inr labeled \<Rightarrow> (Inr (labeled, a), t @ [LogInfo ''Label query requested.'',
                                       QueryLabels (server a) labels])))
      \<and> filter is_workflow_query (emitted (call_query env a) t) = [])
   \<and> (\<not> label_given (label a) \<longrightarrow> workflow_id a = PNone \<or> workflow_id a = PStr ''None'' \<longrightarrow>
      call_query env a t = call_list env a t)"
proof (intro conjI impI)
  assume l: "label_given (label a)" and w: "workflow_id a \<noteq> PNone"
  show eq: "call_query env a t =
        (case kv_list_to_dict env (label a) of
           Inl e \<Rightarrow> (Inl e, t @ [LogInfo ''Label query requested.''])
         | Inr labels \<Rightarrow>
             (case query_labels env (server a) labels
                     (t @ [LogInfo ''Label query requested.'']) of
                Inl e \<Rightarrow> (Inl e, t @ [LogInfo ''Label query requested.'',
                                       QueryLabels (server a) labels])
              | Inr labeled \<Rightarrow> (Inr (labeled, a), t @ [LogInfo ''Label query requested.'',
                                       QueryLabels (server a) labels])))"
    using l w by (rule call_query_labels)
  show "filter is_workflow_query (emitted (call_query env a) t) = []"
    unfolding emitted_def eq by (simp split: sum.splits)
next
  assume "\<not> label_given (label a)" and "workflow_id a = PNone \<or> workflow_id a = PStr ''None''"
  then show "call_query env a t = call_list env a t"
    by (simp add: call_query_delegates)
qed

theorem call_query_label_precedence_witness:
  "label_given (label label_query_args) \<and> workflow_id label_query_args \<noteq> PNone
   \<and> status label_query_args
   \<and> call_query demo_env label_query_args [] =
       (Inr (PDict [(''results'', PList [])], label_query_args),
        [LogInfo ''Label query requested.'',
         QueryLabels ''localhost'' (Some [(''project'', ''demo'')])])
   \<and> filter is_workflow_query (emitted (call_query demo_env label_query_args) []) = []
   \<and> \<not> label_given (label list_query_args) \<and> workflow_id list_query_args = PStr ''None''
   \<and> call_query demo_env list_query_args [] = call_list demo_env list_query_args []"
proof -
  have kv: "kv_list_to_dict_spec (Some [''project:demo'']) = Inr (Some [(''project'', ''demo'')])"
    by (simp add: kv_list_to_dict_spec_def split_label_def ebind_def)
  have ql: "query_labels demo_env = (\<lambda>h l t. Inr (PDict [(''results'', PList [])]))"
    by (simp add: demo_env_def)
  have f: "label label_query_args = Some [''project:demo'']" "server label_query_args = ''localhost''"
      "workflow_id label_query_args = PStr ''None''" "status label_query_args"
      "label list_query_args = None" "workflow_id list_query_args = PStr ''None''"
    by (simp_all add: label_query_args_def list_query_args_def demo_args_def)
  show ?thesis
    using call_query_label_precedence[of label_query_args demo_env "[]"]
          call_query_label_precedence[of list_query_args demo_env "[]"]
    by (simp add: f kv ql label_given_def)
qed

text \<open>
  C7. When monitoring was requested and the server has answered the submission with a
  document that has an id, \<^verbatim>\<open>call_run\<close> sleeps for 5 seconds and then calls the monitor,
  whether or not it returns afterwards: of the events that follow the submission, the
  first that is a submission, a sleep or a monitor call is the sleep of 5 seconds, and the
  others are monitor calls, at least one. A monitored run that returns therefore shows the
  submission, the sleep and the monitor calls, in this order. When monitoring was not
  requested, the run neither sleeps nor calls the monitor. No run, whatever its outcome,
  sleeps or calls the monitor in another place.
\<close>

theorem grace_sleep_before_monitoring:
  "(monitor a \<longrightarrow> emitted (call_run env a) t = pre @ Submit req # post \<longrightarrow>
      jstart_workflow env req (t @ pre) = Inr result \<longrightarrow> getitem result ''id'' = Inr w \<longrightarrow>
      (\<exists>ms. filter is_milestone post = Sleep 5 # ms \<and> ms \<noteq> [] \<and> list_all is_monitor_call ms))
   \<and> (monitor a \<longrightarrow> fst (call_run env a t) = Inr (r, a') \<longrightarrow>
      (\<exists>req ms. filter is_milestone (emitted (call_run env a) t) = Submit req # Sleep 5 # ms
             \<and> ms \<noteq> [] \<and> list_all is_monitor_call ms))
   \<and> (\<not> monitor a \<longrightarrow> filter is_sleep (emitted (call_run env a) t) = []
                    \<and> filter is_monitor_call (emitted (call_run env a) t) = [])
   \<and> (filter is_sleep (emitted (call_run env a) t) \<noteq> []
        \<or> filter is_monitor_call (emitted (call_run env a) t) \<noteq> [] \<longrightarrow>
      (\<exists>req ms. filter is_milestone (emitted (call_run env a) t) = Submit req # Sleep 5 # ms
             \<and> ms \<noteq> [] \<and> list_all is_monitor_call ms))"
proof -
  define ms where "ms = filter is_milestone (emitted (call_run env a) t)"
  have sl: "filter is_sleep (emitted (call_run env a) t) = filter is_sleep ms"
    unfolding ms_def by (rule filter_sleep_milestone)
  have mo: "filter is_monitor_call (emitted (call_run env a) t) = filter is_monitor_call ms"
    unfolding ms_def by (rule filter_monitor_milestone)
  have shape: "ms = [] \<or> (\<exists>req. ms = [Submit req])
     \<or> (monitor a \<and> (\<exists>req ms'. ms = Submit req # Sleep 5 # ms'
             \<and> ms' \<noteq> [] \<and> list_all is_monitor_call ms'))"
    unfolding ms_def by (rule call_run_milestones)
  have one: "monitor a \<longrightarrow> emitted (call_run env a) t = pre @ Submit req # post \<longrightarrow>
      jstart_workflow env req (t @ pre) = Inr result \<longrightarrow> getitem result ''id'' = Inr w \<longrightarrow>
      (\<exists>ms. filter is_milestone post = Sleep 5 # ms \<and> ms \<noteq> [] \<and> list_all is_monitor_call ms)"
    using submission_then_sleep by blast
  have two: "monitor a \<longrightarrow> fst (call_run env a t) = Inr (r, a') \<longrightarrow>
      (\<exists>req ms'. ms = Submit req # Sleep 5 # ms' \<and> ms' \<noteq> [] \<and> list_all is_monitor_call ms')"
    unfolding ms_def using call_run_sleep_shape[of env a t] by auto
  have three: "\<not> monitor a \<longrightarrow> filter is_sleep ms = [] \<and> filter is_monitor_call ms = []"
    using shape by auto
  have four: "filter is_sleep ms \<noteq> [] \<or> filter is_monitor_call ms \<noteq> [] \<longrightarrow>
      (\<exists>req ms'. ms = Submit req # Sleep 5 # ms' \<and> ms' \<noteq> [] \<and> list_all is_monitor_call ms')"
    using shape by auto
  show ?thesis
    unfolding sl mo using one two three four unfolding ms_def by blast
qed

theorem grace_sleep_before_monitoring_witness:
  "monitor monitored_args
   \<and> emitted (call_run demo_env monitored_args) [] =
       [] @ Submit demo_req #
         (demo_links @
          [Sleep 5,
           Print ''These will also be e-mailed to you when the workflow completes.'',
           LogInfo ''Monitoring requested'',
           Print ''-------------Monitoring Workflow-------------'',
           MonitorWorkflow demo_monitor (PStr ''wf-1'')])
   \<and> jstart_workflow demo_env demo_req ([] @ []) = Inr demo_result
   \<and> getitem demo_result ''id'' = Inr (PStr ''wf-1'')
   \<and> fst (call_run demo_env monitored_args []) =
        Inr (demo_result, monitored_args\<lparr>workflow_id := PStr ''wf-1''\<rparr>)
   \<and> filter is_milestone (emitted (call_run demo_env monitored_args) []) =
        [Submit demo_req, Sleep 5, MonitorWorkflow demo_monitor (PStr ''wf-1'')]
   \<and> fst (call_run interrupted_env monitored_args []) = Inl KeyboardInterrupt
   \<and> filter is_milestone (emitted (call_run interrupted_env monitored_args) []) =
        [Submit demo_req, Sleep 5, MonitorWorkflow demo_monitor (PStr ''wf-1'')]
   \<and> \<not> monitor demo_args
   \<and> filter is_sleep (emitted (call_run demo_env demo_args) []) = []"
  using grace_sleep_before_monitoring[where a = monitored_args and env = demo_env and t = "[]"
          and pre = "[]" and req = demo_req and result = demo_result and w = "PStr ''wf-1''"
          and r = demo_result and a' = "monitored_args\<lparr>workflow_id := PStr ''wf-1''\<rparr>"
          and post = "demo_links @
          [Sleep 5,
           Print ''These will also be e-mailed to you when the workflow completes.'',
           LogInfo ''Monitoring requested'',
           Print ''-------------Monitoring Workflow-------------'',
           MonitorWorkflow demo_monitor (PStr ''wf-1'')]"]
        grace_sleep_before_monitoring[where a = monitored_args and env = interrupted_env
          and t = "[]" and pre = "[]" and req = demo_req and result = demo_result
          and w = "PStr ''wf-1''"
          and post = "demo_links @
          [Sleep 5,
           Print ''These will also be e-mailed to you when the workflow completes.'',
           LogInfo ''Monitoring requested'',
           Print ''-------------Monitoring Workflow-------------'',
           MonitorWorkflow demo_monitor (PStr ''wf-1'')]"]
        grace_sleep_before_monitoring[where a = demo_args and env = demo_env and t = "[]"]
  by (simp add: demo_monitored_run interrupted_monitored_run demo_run emitted_def demo_links_def
        is_milestone_def demo_result_def)
     (simp add: monitored_args_def demo_args_def)

end
